theory Spec2Isabelle
  imports Complex_Main "HOL-Library.AList"
begin

section \<open>Collaborative filtering over a rating table\<close>

text \<open>
  The development embeds the analysis functions of \<^verbatim>\<open>logs/analyze_cf.py\<close> and
  \<^verbatim>\<open>logs/find_ideal_user.py\<close>. The similarity values are computed in IEEE 754
  double precision, so the arithmetic of the code is modelled with its rounding: every
  operation gives the double nearest to the exact result.
\<close>

subsection \<open>Double-precision numbers\<close>

text \<open>
  A double is a finite number, an infinity or not-a-number. A finite double is given by
  its value; the two zeros are not told apart, which no function below can observe
  (the only divisions by zero have a sum of squares or a square root as divisor, and
  those are never the negative zero).
\<close>

datatype fl = Fin real | PInf | NInf | NaN

text \<open>Rounding to the nearest integer, a tie going to the even one.\<close>

definition round_half_even :: "real \<Rightarrow> int" where
  "round_half_even y =
     (let f = \<lfloor>y\<rfloor>
      in if y - of_int f < 1 / 2 then f
         else if 1 / 2 < y - of_int f then f + 1
         else if even f then f else f + 1)"

text \<open>
  The distance between neighbouring doubles around \<open>x\<close>: 52 binary digits below the
  leading one, and never below \<open>2 powi (- 1074)\<close>, the spacing of the subnormal numbers.
\<close>

definition quantum :: "real \<Rightarrow> real" where
  "quantum x = 2 powi (max \<lfloor>log 2 \<bar>x\<bar>\<rfloor> (- 1022) - 52)"

text \<open>
  The double for an exact result \<open>x\<close>: the nearest multiple of the quantum, ties to
  even, or an infinity when that multiple is beyond the largest double.
\<close>

definition rnd :: "real \<Rightarrow> fl" where
  "rnd x =
     (if x = 0 then Fin 0
      else
        let y = of_int (round_half_even (x / quantum x)) * quantum x
        in if 2 ^ 1024 \<le> y then PInf else if y \<le> - (2 ^ 1024) then NInf else Fin y)"

definition fneg :: "fl \<Rightarrow> fl" where
  "fneg a = (case a of Fin x \<Rightarrow> Fin (- x) | PInf \<Rightarrow> NInf | NInf \<Rightarrow> PInf | NaN \<Rightarrow> NaN)"

definition fadd :: "fl \<Rightarrow> fl \<Rightarrow> fl" where
  "fadd a b =
     (case (a, b) of
        (Fin x, Fin y) \<Rightarrow> rnd (x + y)
      | (NaN, _) \<Rightarrow> NaN
      | (_, NaN) \<Rightarrow> NaN
      | (PInf, NInf) \<Rightarrow> NaN
      | (NInf, PInf) \<Rightarrow> NaN
      | (PInf, _) \<Rightarrow> PInf
      | (_, PInf) \<Rightarrow> PInf
      | (NInf, _) \<Rightarrow> NInf
      | (_, NInf) \<Rightarrow> NInf)"

definition fsub :: "fl \<Rightarrow> fl \<Rightarrow> fl" where
  "fsub a b = fadd a (fneg b)"

definition fmul :: "fl \<Rightarrow> fl \<Rightarrow> fl" where
  "fmul a b =
     (case (a, b) of
        (Fin x, Fin y) \<Rightarrow> rnd (x * y)
      | (NaN, _) \<Rightarrow> NaN
      | (_, NaN) \<Rightarrow> NaN
      | (Fin x, PInf) \<Rightarrow> (if x = 0 then NaN else if 0 < x then PInf else NInf)
      | (Fin x, NInf) \<Rightarrow> (if x = 0 then NaN else if 0 < x then NInf else PInf)
      | (PInf, Fin y) \<Rightarrow> (if y = 0 then NaN else if 0 < y then PInf else NInf)
      | (NInf, Fin y) \<Rightarrow> (if y = 0 then NaN else if 0 < y then NInf else PInf)
      | (PInf, PInf) \<Rightarrow> PInf
      | (NInf, NInf) \<Rightarrow> PInf
      | (PInf, NInf) \<Rightarrow> NInf
      | (NInf, PInf) \<Rightarrow> NInf)"

text \<open>
  Division as NumPy does it: a zero divisor gives an infinity or not-a-number, with a
  warning and without an exception.
\<close>

definition fdiv :: "fl \<Rightarrow> fl \<Rightarrow> fl" where
  "fdiv a b =
     (case (a, b) of
        (Fin x, Fin y) \<Rightarrow>
          (if y = 0 then (if x = 0 then NaN else if 0 < x then PInf else NInf)
           else rnd (x / y))
      | (NaN, _) \<Rightarrow> NaN
      | (_, NaN) \<Rightarrow> NaN
      | (Fin x, _) \<Rightarrow> Fin 0
      | (PInf, Fin y) \<Rightarrow> (if 0 \<le> y then PInf else NInf)
      | (NInf, Fin y) \<Rightarrow> (if 0 \<le> y then NInf else PInf)
      | (_, _) \<Rightarrow> NaN)"

definition fsqrt :: "fl \<Rightarrow> fl" where
  "fsqrt a =
     (case a of
        Fin x \<Rightarrow> (if x < 0 then NaN else rnd (sqrt x))
      | PInf \<Rightarrow> PInf
      | NInf \<Rightarrow> NaN
      | NaN \<Rightarrow> NaN)"

text \<open>The comparisons \<^verbatim>\<open>a > b\<close> and \<^verbatim>\<open>a == b\<close>; both are false on not-a-number.\<close>

definition fgt :: "fl \<Rightarrow> fl \<Rightarrow> bool" where
  "fgt a b =
     (case (a, b) of
        (Fin x, Fin y) \<Rightarrow> y < x
      | (NaN, _) \<Rightarrow> False
      | (_, NaN) \<Rightarrow> False
      | (PInf, PInf) \<Rightarrow> False
      | (PInf, _) \<Rightarrow> True
      | (_, NInf) \<Rightarrow> (a \<noteq> NInf)
      | (_, _) \<Rightarrow> False)"

definition feq :: "fl \<Rightarrow> fl \<Rightarrow> bool" where
  "feq a b = (a = b \<and> a \<noteq> NaN)"

text \<open>
  \<^verbatim>\<open>sum(xs)\<close>: the additions run from left to right, starting from the integer 0.
\<close>

definition fsum :: "fl list \<Rightarrow> fl" where
  "fsum xs = foldl fadd (Fin 0) xs"

subsection \<open>Errors and data\<close>

datatype error = ZeroDivisionError | KeyError | OverflowError | ValueError

text \<open>
  One row of the rating table: the columns the code reads. A rating is a finite double,
  as the cleaned table has it, given by its value.
\<close>

record rating_row =
  user_id :: string
  business_id :: string
  rating :: real

text \<open>
  A Python dictionary keeps its keys in insertion order and iteration follows that
  order, so a dictionary is an association list; assignment is \<^const>\<open>AList.update\<close>,
  which overwrites in place or appends.
\<close>

type_synonym 'v dict = "(string \<times> 'v) list"

text \<open>
  A list comprehension, or a generator consumed by \<^verbatim>\<open>sum\<close>, whose element expression
  may raise: the first error ends it.
\<close>

fun comprehension :: "('a \<Rightarrow> error + 'b) \<Rightarrow> 'a list \<Rightarrow> error + 'b list" where
  "comprehension f [] = Inr []"
| "comprehension f (x # xs) =
     (case f x of
        Inl e \<Rightarrow> Inl e
      | Inr y \<Rightarrow> (case comprehension f xs of Inl e \<Rightarrow> Inl e | Inr ys \<Rightarrow> Inr (y # ys)))"

subsection \<open>Pearson correlation, \<^verbatim>\<open>find_ideal_user.calculate_pearson\<close>\<close>

text \<open>
  The function works on whatever numbers its vectors hold. On plain Python floats
  \<^verbatim>\<open>x ** 2\<close> raises \<^verbatim>\<open>OverflowError\<close> when the square is beyond the largest double; on
  NumPy doubles, which is what the caller in this file passes (they are read from a
  pandas series), it gives an infinity. Everywhere else the two kinds agree. The square
  is taken as the rounded product.
\<close>

datatype scalar_kind = PyFloat | NpFloat64

definition pow2 :: "scalar_kind \<Rightarrow> fl \<Rightarrow> error + fl" where
  "pow2 kind a =
     (case kind of
        NpFloat64 \<Rightarrow> Inr (fmul a a)
      | PyFloat \<Rightarrow>
          (case a of
             Fin x \<Rightarrow> (case fmul a a of Fin y \<Rightarrow> Inr (Fin y) | _ \<Rightarrow> Inl OverflowError)
           | _ \<Rightarrow> Inr (fmul a a)))"

text \<open>
  \<^verbatim>\<open>len(vecB)\<close> is 0 only for an empty \<^verbatim>\<open>vecB\<close>, whose sum is the integer 0, and
  \<^verbatim>\<open>0 / 0\<close> raises \<^verbatim>\<open>ZeroDivisionError\<close>. The last division has a NumPy double as
  divisor, the product of two \<^verbatim>\<open>np.sqrt\<close>, and cannot raise.
\<close>

definition calculate_pearson :: "scalar_kind \<Rightarrow> fl list \<Rightarrow> fl list \<Rightarrow> error + fl" where
  "calculate_pearson kind vecA vecB =
     (if length vecA < 2 then Inr (Fin 0)
      else if length vecB = 0 then Inl ZeroDivisionError
      else
        let meanA = fdiv (fsum vecA) (Fin (real (length vecA)));
            meanB = fdiv (fsum vecB) (Fin (real (length vecB)));
            numerator = fsum (map (\<lambda>(a, b). fmul (fsub a meanA) (fsub b meanB)) (zip vecA vecB))
        in case comprehension (\<lambda>a. pow2 kind (fsub a meanA)) vecA of
             Inl e \<Rightarrow> Inl e
           | Inr squaresA \<Rightarrow>
               (case comprehension (\<lambda>b. pow2 kind (fsub b meanB)) vecB of
                  Inl e \<Rightarrow> Inl e
                | Inr squaresB \<Rightarrow>
                    let denominatorA = fsum squaresA;
                        denominatorB = fsum squaresB
                    in if denominatorA = Fin 0 \<or> denominatorB = Fin 0 then Inr (Fin 0)
                       else Inr (fdiv numerator (fmul (fsqrt denominatorA) (fsqrt denominatorB)))))"

subsection \<open>Pearson correlation, \<^verbatim>\<open>analyze_cf.calculate_pearson_correlation\<close>\<close>

text \<open>
  The function calls two library routines, modelled from their documented behaviour.
  \<^verbatim>\<open>numpy.std\<close> is the population standard deviation, the square root of the mean of
  the squared deviations from the mean, and not-a-number on an empty input.
\<close>

definition np_std :: "fl list \<Rightarrow> fl" where
  "np_std xs =
     (if xs = [] then NaN
      else
        let n = Fin (real (length xs));
            arrmean = fdiv (fsum xs) n;
            x = map (\<lambda>a. fsub a arrmean) xs
        in fsqrt (fdiv (fsum (map (\<lambda>d. fmul d d) x)) n))"

text \<open>
  \<^verbatim>\<open>numpy.sign\<close>, and the statistic kept between \<open>-1\<close> and \<open>1\<close> by
  \<^verbatim>\<open>max(min(r, 1.0), -1.0)\<close>. The result is a number or not-a-number (\<^const>\<open>None\<close>);
  both Python comparisons are false on not-a-number, which therefore passes through.
\<close>

definition fsign :: "fl \<Rightarrow> real option" where
  "fsign a = (case a of Fin x \<Rightarrow> Some (sgn x) | PInf \<Rightarrow> Some 1 | NInf \<Rightarrow> Some (- 1) | NaN \<Rightarrow> None)"

definition clip_unit :: "fl \<Rightarrow> real option" where
  "clip_unit r =
     (case r of Fin x \<Rightarrow> Some (max (min x 1) (- 1)) | PInf \<Rightarrow> Some 1 | NInf \<Rightarrow> Some (- 1)
      | NaN \<Rightarrow> None)"

text \<open>
  \<^verbatim>\<open>scipy.stats.pearsonr\<close> raises \<^verbatim>\<open>ValueError\<close> on inputs of different lengths or of
  length below two, and gives not-a-number, with a warning, when an input is constant.
  For two points the statistic is the product of the signs of the two differences.
  Otherwise it is the sum of the products of the deviations from the means, each
  divided by the norm of its vector, kept between \<open>-1\<close> and \<open>1\<close>. The sums are taken from
  left to right.
\<close>

definition pearsonr :: "fl list \<Rightarrow> fl list \<Rightarrow> error + real option" where
  "pearsonr x y =
     (if length x \<noteq> length y then Inl ValueError
      else if length x < 2 then Inl ValueError
      else if list_all (\<lambda>v. feq v (hd x)) x \<or> list_all (\<lambda>v. feq v (hd y)) y then Inr None
      else if length x = 2 then
        (case (fsign (fsub (x ! 1) (x ! 0)), fsign (fsub (y ! 1) (y ! 0))) of
           (Some s, Some t) \<Rightarrow> Inr (Some (s * t))
         | _ \<Rightarrow> Inr None)
      else
        let xmean = fdiv (fsum x) (Fin (real (length x)));
            ymean = fdiv (fsum y) (Fin (real (length y)));
            xm = map (\<lambda>v. fsub v xmean) x;
            ym = map (\<lambda>v. fsub v ymean) y;
            normxm = fsqrt (fsum (map (\<lambda>a. fmul a a) xm));
            normym = fsqrt (fsum (map (\<lambda>a. fmul a a) ym));
            r = fsum (map (\<lambda>(a, b). fmul (fdiv a normxm) (fdiv b normym)) (zip xm ym))
        in Inr (clip_unit r))"

text \<open>
  The \<^verbatim>\<open>try\<close> block catches every exception, so the function always returns a number:
  0, or the statistic when that is not not-a-number.
\<close>

definition calculate_pearson_correlation :: "fl list \<Rightarrow> fl list \<Rightarrow> real" where
  "calculate_pearson_correlation vec1 vec2 =
     (if length vec1 < 2 then 0
      else if np_std vec1 = Fin 0 \<or> np_std vec2 = Fin 0 then 0
      else case pearsonr vec1 vec2 of
             Inl e \<Rightarrow> 0
           | Inr None \<Rightarrow> 0
           | Inr (Some corr) \<Rightarrow> corr)"

text \<open>A vector has zero variance when all its values are the same.\<close>

definition all_identical :: "real list \<Rightarrow> bool" where
  "all_identical xs = list_all (\<lambda>x. list_all (\<lambda>y. x = y) xs) xs"

subsection \<open>Dictionaries and sets\<close>

text \<open>
  \<^verbatim>\<open>d[k]\<close> on a plain dictionary raises \<^verbatim>\<open>KeyError\<close> on a missing key.
\<close>

definition getitem :: "'v dict \<Rightarrow> string \<Rightarrow> error + 'v" where
  "getitem d k = (case map_of d k of None \<Rightarrow> Inl KeyError | Some v \<Rightarrow> Inr v)"

text \<open>
  \<^verbatim>\<open>d[k1][k2] = v\<close> on a \<^verbatim>\<open>defaultdict(dict)\<close>: a missing outer key is first bound to
  an empty dictionary, at the end of the iteration order.
\<close>

definition setitem2 :: "'v dict dict \<Rightarrow> string \<Rightarrow> string \<Rightarrow> 'v \<Rightarrow> 'v dict dict" where
  "setitem2 d k1 k2 v =
     AList.update k1 (AList.update k2 v (case map_of d k1 of None \<Rightarrow> [] | Some inner \<Rightarrow> inner)) d"

text \<open>
  \<^verbatim>\<open>d[k1][k2]\<close> read from a \<^verbatim>\<open>defaultdict(dict)\<close>: a missing outer key yields an empty
  dictionary, on which the inner subscript raises \<^verbatim>\<open>KeyError\<close>.
\<close>

definition getitem2 :: "'v dict dict \<Rightarrow> string \<Rightarrow> string \<Rightarrow> error + 'v" where
  "getitem2 d k1 k2 =
     (case map_of d k1 of None \<Rightarrow> Inl KeyError | Some inner \<Rightarrow> getitem inner k2)"

text \<open>
  A Python set is a list without repetitions. Python leaves the order in which a set is
  enumerated open; the model enumerates the elements in the order of the list. The two
  comprehensions that build a pair of rating vectors enumerate the same set object, so
  they see the same order, whatever it is.
\<close>

definition py_set :: "string list \<Rightarrow> string list" where
  "py_set xs = remdups xs"

definition intersection :: "string list \<Rightarrow> string list \<Rightarrow> string list" where
  "intersection s t = filter (\<lambda>x. x \<in> set t) s"

subsection \<open>The two indices, built by the loops over \<^verbatim>\<open>ratings_df.iterrows()\<close>\<close>

definition user_ratings_of :: "rating_row list \<Rightarrow> real dict dict" where
  "user_ratings_of ratings_df =
     foldl (\<lambda>user_ratings row. setitem2 user_ratings (user_id row) (business_id row) (rating row))
           [] ratings_df"

definition item_ratings_of :: "rating_row list \<Rightarrow> real dict dict" where
  "item_ratings_of ratings_df =
     foldl (\<lambda>item_ratings row. setitem2 item_ratings (business_id row) (user_id row) (rating row))
           [] ratings_df"

subsection \<open>\<^verbatim>\<open>analyze_cf.find_similar_users\<close>\<close>

type_synonym user_score = "string \<times> real \<times> nat"

text \<open>
  The loop over \<^verbatim>\<open>user_ratings.items()\<close>, with the list \<^verbatim>\<open>similarity_scores\<close> as the
  accumulator. The thresholds are natural numbers: the contract has them at least 1.
\<close>

fun similar_users_loop ::
  "string \<Rightarrow> string list \<Rightarrow> real dict dict \<Rightarrow> nat \<Rightarrow> (string \<times> real dict) list
     \<Rightarrow> user_score list \<Rightarrow> error + user_score list" where
  "similar_users_loop target_user_id target_user_items user_ratings min_common_ratings []
       similarity_scores = Inr similarity_scores"
| "similar_users_loop target_user_id target_user_items user_ratings min_common_ratings
       ((other_user_id, other_ratings) # rest) similarity_scores =
     (if other_user_id = target_user_id
      then similar_users_loop target_user_id target_user_items user_ratings min_common_ratings
             rest similarity_scores
      else
        let other_user_items = py_set (map fst other_ratings);
            common_items = intersection target_user_items other_user_items
        in if length common_items \<ge> min_common_ratings
           then
             (case comprehension (getitem2 user_ratings target_user_id) common_items of
                Inl e \<Rightarrow> Inl e
              | Inr target_values \<Rightarrow>
                  (case comprehension (getitem other_ratings) common_items of
                     Inl e \<Rightarrow> Inl e
                   | Inr other_values \<Rightarrow>
                       let similarity = calculate_pearson_correlation (map Fin target_values) (map Fin other_values)
                       in similar_users_loop target_user_id target_user_items user_ratings
                            min_common_ratings rest
                            (similarity_scores @ [(other_user_id, similarity, length common_items)])))
           else similar_users_loop target_user_id target_user_items user_ratings
                  min_common_ratings rest similarity_scores)"

text \<open>The list \<^verbatim>\<open>similarity_scores\<close> as it stands when the loop ends, before sorting.\<close>

definition similarity_scores_of :: "string \<Rightarrow> rating_row list \<Rightarrow> nat \<Rightarrow> error + user_score list" where
  "similarity_scores_of target_user_id ratings_df min_common_ratings =
     (let target_user_ratings = filter (\<lambda>row. user_id row = target_user_id) ratings_df;
          target_user_items = py_set (map business_id target_user_ratings);
          user_ratings = user_ratings_of ratings_df
      in similar_users_loop target_user_id target_user_items user_ratings min_common_ratings
           user_ratings [])"

text \<open>
  \<^verbatim>\<open>sort(key=..., reverse=True)\<close> is stable and keeps equal keys in their original order,
  as does a stable ascending sort on the negated key.
\<close>

definition find_similar_users ::
  "string \<Rightarrow> rating_row list \<Rightarrow> nat \<Rightarrow> nat \<Rightarrow> error + user_score list" where
  "find_similar_users target_user_id ratings_df min_common_ratings top_n =
     (case similarity_scores_of target_user_id ratings_df min_common_ratings of
        Inl e \<Rightarrow> Inl e
      | Inr similarity_scores \<Rightarrow>
          Inr (take top_n (sort_key (\<lambda>x. - fst (snd x)) similarity_scores)))"

subsection \<open>\<^verbatim>\<open>analyze_cf.find_similar_items\<close>\<close>

type_synonym item_score = "string \<times> string \<times> real \<times> nat"

fun similar_items_inner ::
  "string \<Rightarrow> string list \<Rightarrow> real dict dict \<Rightarrow> nat \<Rightarrow> (string \<times> real dict) list
     \<Rightarrow> item_score list \<Rightarrow> error + item_score list" where
  "similar_items_inner target_item target_item_users item_ratings min_common_users []
       similar_items = Inr similar_items"
| "similar_items_inner target_item target_item_users item_ratings min_common_users
       ((other_item, other_ratings) # rest) similar_items =
     (if other_item = target_item
      then similar_items_inner target_item target_item_users item_ratings min_common_users
             rest similar_items
      else
        let other_item_users = py_set (map fst other_ratings);
            common_users = intersection target_item_users other_item_users
        in if length common_users \<ge> min_common_users
           then
             (case comprehension (getitem2 item_ratings target_item) common_users of
                Inl e \<Rightarrow> Inl e
              | Inr target_values \<Rightarrow>
                  (case comprehension (getitem other_ratings) common_users of
                     Inl e \<Rightarrow> Inl e
                   | Inr other_values \<Rightarrow>
                       let similarity = calculate_pearson_correlation (map Fin target_values) (map Fin other_values)
                       in similar_items_inner target_item target_item_users item_ratings
                            min_common_users rest
                            (if similarity > 0
                             then similar_items @ [(target_item, other_item, similarity, length common_users)]
                             else similar_items)))
           else similar_items_inner target_item target_item_users item_ratings
                  min_common_users rest similar_items)"

text \<open>
  The outer loop over \<^verbatim>\<open>target_items\<close>, an array that repeats an item rated twice.
  \<^verbatim>\<open>item_ratings[target_item]\<close> is read from the \<^verbatim>\<open>defaultdict\<close>, so a missing item
  would give the empty dictionary.
\<close>

fun similar_items_outer ::
  "real dict dict \<Rightarrow> nat \<Rightarrow> string list \<Rightarrow> item_score list \<Rightarrow> error + item_score list" where
  "similar_items_outer item_ratings min_common_users [] similar_items = Inr similar_items"
| "similar_items_outer item_ratings min_common_users (target_item # rest) similar_items =
     (let target_item_users =
            py_set (map fst (case map_of item_ratings target_item of None \<Rightarrow> [] | Some d \<Rightarrow> d))
      in case similar_items_inner target_item target_item_users item_ratings min_common_users
                item_ratings similar_items of
           Inl e \<Rightarrow> Inl e
         | Inr similar_items' \<Rightarrow>
             similar_items_outer item_ratings min_common_users rest similar_items')"

definition find_similar_items ::
  "string \<Rightarrow> rating_row list \<Rightarrow> nat \<Rightarrow> nat \<Rightarrow> error + item_score list" where
  "find_similar_items target_user_id ratings_df min_common_users top_n =
     (let target_user_ratings = filter (\<lambda>row. user_id row = target_user_id) ratings_df;
          target_items = map business_id target_user_ratings;
          item_ratings = item_ratings_of ratings_df
      in case similar_items_outer item_ratings min_common_users target_items [] of
           Inl e \<Rightarrow> Inl e
         | Inr similar_items \<Rightarrow>
             Inr (take top_n (sort_key (\<lambda>x. - fst (snd (snd x))) similar_items)))"

text \<open>
  The rating an index holds under an outer key and then an inner key, if any.
\<close>

definition stored :: "'v dict dict \<Rightarrow> string \<Rightarrow> string \<Rightarrow> 'v option" where
  "stored d k1 k2 = (case map_of d k1 of None \<Rightarrow> None | Some inner \<Rightarrow> map_of inner k2)"

text \<open>
  The rating of the last row of the table for a user and a business, if there is one.
\<close>

definition last_rating :: "rating_row list \<Rightarrow> string \<Rightarrow> string \<Rightarrow> real option" where
  "last_rating ratings_df u i =
     map_option rating (find (\<lambda>row. user_id row = u \<and> business_id row = i) (rev ratings_df))"

text \<open>
  What one pass of the loop of \<^verbatim>\<open>find_similar_users\<close> does with a candidate when no read
  fails: the test that admits the candidate, and the tuple appended for it.
\<close>

definition users_candidate :: "string \<Rightarrow> string list \<Rightarrow> nat \<Rightarrow> string \<times> real dict \<Rightarrow> bool" where
  "users_candidate t items m =
     (\<lambda>(u, d). u \<noteq> t \<and> m \<le> length (intersection items (py_set (map fst d))))"

definition users_score :: "string \<Rightarrow> string list \<Rightarrow> real dict dict \<Rightarrow> string \<times> real dict \<Rightarrow> user_score" where
  "users_score t items ur =
     (\<lambda>(u, d). let common = intersection items (py_set (map fst d))
              in (u,
                  calculate_pearson_correlation
                    (map Fin (map (\<lambda>i. the (stored ur t i)) common))
                    (map Fin (map (\<lambda>i. the (map_of d i)) common)),
                  length common))"

text \<open>
  A small table: users A and B share the businesses x and y, C shares none with A, and D
  shares x only.
\<close>

definition example_ratings :: "rating_row list" where
  "example_ratings =
     [\<lparr>user_id = ''A'', business_id = ''x'', rating = 4\<rparr>,
      \<lparr>user_id = ''A'', business_id = ''y'', rating = 5\<rparr>,
      \<lparr>user_id = ''B'', business_id = ''x'', rating = 2\<rparr>,
      \<lparr>user_id = ''B'', business_id = ''y'', rating = 3\<rparr>,
      \<lparr>user_id = ''C'', business_id = ''z'', rating = 3\<rparr>,
      \<lparr>user_id = ''D'', business_id = ''x'', rating = 2\<rparr>]"

text \<open>
  The tuples one target item contributes to \<^verbatim>\<open>similar_items\<close> when no read fails.
\<close>

definition item_pairs :: "real dict dict \<Rightarrow> nat \<Rightarrow> string \<Rightarrow> item_score list" where
  "item_pairs ir m ti =
     (let tusers = py_set (map fst (case map_of ir ti of None \<Rightarrow> [] | Some d \<Rightarrow> d))
      in map (Pair ti)
           (filter (\<lambda>x. 0 < fst (snd x))
              (map (users_score ti tusers ir) (filter (users_candidate ti tusers m) ir))))"

subsection \<open>\<^verbatim>\<open>find_ideal_user.find_ideal_cf_users\<close>\<close>

text \<open>
  The function reads the table with pandas. \<^verbatim>\<open>value_counts\<close> gives each user id with the
  number of its rows, by falling count; the order among equal counts is an artefact of
  pandas and no statement below depends on it (the model keeps the order of first
  appearance).
\<close>

definition value_counts :: "string list \<Rightarrow> (string \<times> nat) list" where
  "value_counts xs =
     sort_key (\<lambda>p. - int (snd p)) (map (\<lambda>u. (u, count_list xs u)) (rev (remdups (rev xs))))"

text \<open>
  \<^verbatim>\<open>ratings_df[ratings_df['user_id'] == u].set_index('business_id')['rating']\<close>: the series
  of the ratings of one user, labelled by business, one entry per row of the table, so a
  label is repeated when the table has several rows for the user and the business.
\<close>

definition series_of :: "rating_row list \<Rightarrow> string \<Rightarrow> real dict" where
  "series_of ratings_df u =
     map (\<lambda>row. (business_id row, rating row)) (filter (\<lambda>row. user_id row = u) ratings_df)"

text \<open>
  Subscripting a series with a label raises \<^verbatim>\<open>KeyError\<close> when the label is absent, gives
  the number when the label occurs once, and gives the sub-series of all its entries
  when the label is repeated.
\<close>

datatype cell = Scalar real | SubSeries "real list"

definition series_getitem :: "real dict \<Rightarrow> string \<Rightarrow> error + cell" where
  "series_getitem s label =
     (case filter (\<lambda>p. fst p = label) s of
        [] \<Rightarrow> Inl KeyError
      | [p] \<Rightarrow> Inr (Scalar (snd p))
      | ps \<Rightarrow> Inr (SubSeries (map snd ps)))"

text \<open>The numbers of a vector, when every entry is a number.\<close>

fun scalars :: "cell list \<Rightarrow> fl list option" where
  "scalars [] = Some []"
| "scalars (Scalar x # cs) = (case scalars cs of None \<Rightarrow> None | Some xs \<Rightarrow> Some (Fin x # xs))"
| "scalars (SubSeries ys # cs) = None"

text \<open>
  \<^verbatim>\<open>calculate_pearson\<close> as it runs on the vectors the caller builds. With numbers only it
  is \<^const>\<open>calculate_pearson\<close> on NumPy doubles. A sub-series in a vector turns the mean,
  the sums and the denominator of that vector into series; the arithmetic goes through,
  and the test \<^verbatim>\<open>denominatorA == 0 or denominatorB == 0\<close> raises \<^verbatim>\<open>ValueError\<close> as soon as
  it needs the truth value of a series: at once when \<^verbatim>\<open>vecA\<close> holds a sub-series, and
  after a false \<^verbatim>\<open>denominatorA == 0\<close> when only \<^verbatim>\<open>vecB\<close> does. The length guard comes
  first.
\<close>

definition calculate_pearson_cells :: "cell list \<Rightarrow> cell list \<Rightarrow> error + fl" where
  "calculate_pearson_cells vecA vecB =
     (if length vecA < 2 then Inr (Fin 0)
      else case scalars vecA of
             None \<Rightarrow> Inl ValueError
           | Some a \<Rightarrow>
               (case scalars vecB of
                  Some b \<Rightarrow> calculate_pearson NpFloat64 a b
                | None \<Rightarrow>
                    let meanA = fdiv (fsum a) (Fin (real (length a)));
                        denominatorA = fsum (map (\<lambda>x. fmul (fsub x meanA) (fsub x meanA)) a)
                    in if denominatorA = Fin 0 then Inr (Fin 0) else Inl ValueError))"

definition difference :: "string list \<Rightarrow> string list \<Rightarrow> string list" where
  "difference s t = filter (\<lambda>x. x \<notin> set t) s"

definition set_update :: "string list \<Rightarrow> string list \<Rightarrow> string list" where
  "set_update s t = s @ filter (\<lambda>x. x \<notin> set s) t"

record candidate_row =
  row_user_id :: string
  num_ratings :: nat
  similar_users :: nat
  potential_recommendations :: nat

text \<open>
  The inner loop over \<^verbatim>\<open>qualified_users\<close>; the accumulator is \<^verbatim>\<open>similar_user_count\<close>
  with the set \<^verbatim>\<open>potential_recommendations\<close>.
\<close>

fun others_loop ::
  "string \<Rightarrow> real dict \<Rightarrow> rating_row list \<Rightarrow> nat \<Rightarrow> real \<Rightarrow> string list
     \<Rightarrow> nat \<times> string list \<Rightarrow> error + nat \<times> string list" where
  "others_loop user user_ratings ratings_df min_common min_similarity [] acc = Inr acc"
| "others_loop user user_ratings ratings_df min_common min_similarity (other_id # rest)
       (similar_user_count, potential) =
     (if other_id = user
      then others_loop user user_ratings ratings_df min_common min_similarity rest
             (similar_user_count, potential)
      else
        let other_ratings = series_of ratings_df other_id;
            common_items = intersection (py_set (map fst user_ratings)) (py_set (map fst other_ratings))
        in if length common_items \<ge> min_common
           then
             (case comprehension (series_getitem user_ratings) common_items of
                Inl e \<Rightarrow> Inl e
              | Inr common_user_ratings \<Rightarrow>
                  (case comprehension (series_getitem other_ratings) common_items of
                     Inl e \<Rightarrow> Inl e
                   | Inr common_other_ratings \<Rightarrow>
                       (case calculate_pearson_cells common_user_ratings common_other_ratings of
                          Inl e \<Rightarrow> Inl e
                        | Inr similarity \<Rightarrow>
                            if fgt similarity (Fin min_similarity)
                            then
                              let user_unrated = difference (py_set (map fst other_ratings))
                                                   (py_set (map fst user_ratings))
                              in others_loop user user_ratings ratings_df min_common min_similarity
                                   rest (similar_user_count + 1, set_update potential user_unrated)
                            else others_loop user user_ratings ratings_df min_common min_similarity
                                   rest (similar_user_count, potential))))
           else others_loop user user_ratings ratings_df min_common min_similarity rest
                  (similar_user_count, potential))"

text \<open>The outer loop over \<^verbatim>\<open>qualified_users\<close>, with the list \<^verbatim>\<open>results\<close>.\<close>

fun candidates_loop ::
  "rating_row list \<Rightarrow> nat \<Rightarrow> real \<Rightarrow> string list \<Rightarrow> string list \<Rightarrow> candidate_row list
     \<Rightarrow> error + candidate_row list" where
  "candidates_loop ratings_df min_common min_similarity qualified_users [] results = Inr results"
| "candidates_loop ratings_df min_common min_similarity qualified_users (user # rest) results =
     (let user_ratings = series_of ratings_df user
      in case others_loop user user_ratings ratings_df min_common min_similarity qualified_users
                ((0::nat), []) of
           Inl e \<Rightarrow> Inl e
         | Inr (similar_user_count, potential) \<Rightarrow>
             candidates_loop ratings_df min_common min_similarity qualified_users rest
               (results @ [\<lparr>row_user_id = user,
                             num_ratings = length user_ratings,
                             similar_users = similar_user_count,
                             potential_recommendations = length potential\<rparr>]))"

text \<open>The list \<^verbatim>\<open>results\<close> when the outer loop has ended.\<close>

definition candidate_rows :: "rating_row list \<Rightarrow> nat \<Rightarrow> nat \<Rightarrow> real \<Rightarrow> error + candidate_row list" where
  "candidate_rows ratings_df min_ratings min_common min_similarity =
     (let user_rating_counts = value_counts (map user_id ratings_df);
          qualified_users = map fst (filter (\<lambda>p. snd p \<ge> min_ratings) user_rating_counts)
      in candidates_loop ratings_df min_common min_similarity qualified_users qualified_users [])"

text \<open>
  \<^verbatim>\<open>pd.DataFrame(results).sort_values([...], ascending=False)\<close>: a frame made from an
  empty list has no columns, and sorting it by column names raises \<^verbatim>\<open>KeyError\<close>.
  Otherwise the rows are sorted by falling \<^verbatim>\<open>similar_users\<close>, then by falling
  \<^verbatim>\<open>potential_recommendations\<close>.
\<close>

definition sort_values :: "candidate_row list \<Rightarrow> error + candidate_row list" where
  "sort_values results =
     (if results = [] then Inl KeyError
      else Inr (sort_key (\<lambda>r. - int (similar_users r))
                  (sort_key (\<lambda>r. - int (potential_recommendations r)) results)))"

definition find_ideal_cf_users ::
  "rating_row list \<Rightarrow> nat \<Rightarrow> nat \<Rightarrow> real \<Rightarrow> error + candidate_row list" where
  "find_ideal_cf_users ratings_df min_ratings min_common min_similarity =
     (case candidate_rows ratings_df min_ratings min_common min_similarity of
        Inl e \<Rightarrow> Inl e
      | Inr results \<Rightarrow> sort_values results)"

text \<open>
  A table in which user A has two rows for the business x: A and B both have at least
  two rows and share the businesses x and y.
\<close>

definition repeated_ratings :: "rating_row list" where
  "repeated_ratings =
     [\<lparr>user_id = ''A'', business_id = ''x'', rating = 4\<rparr>,
      \<lparr>user_id = ''A'', business_id = ''x'', rating = 5\<rparr>,
      \<lparr>user_id = ''A'', business_id = ''y'', rating = 3\<rparr>,
      \<lparr>user_id = ''B'', business_id = ''x'', rating = 2\<rparr>,
      \<lparr>user_id = ''B'', business_id = ''y'', rating = 3\<rparr>]"

section \<open>Rounding\<close>

lemma floor_log2_eq:
  assumes "2 powi e \<le> \<bar>x\<bar>" and "\<bar>x\<bar> < 2 powi (e + 1)"
  shows "\<lfloor>log 2 \<bar>x\<bar>\<rfloor> = e"
proof (rule floor_unique)
  have "(0::real) < 2 powi e" by simp
  then have pos: "0 < \<bar>x\<bar>" using assms(1) by linarith
  have p: "\<And>k::int. (2::real) powi k = 2 powr (of_int k)"
    by (simp add: powr_real_of_int')
  show "of_int e \<le> log 2 \<bar>x\<bar>"
    using assms(1) pos by (simp add: le_log_iff p)
  show "log 2 \<bar>x\<bar> < of_int e + 1"
    using assms(2) pos by (simp add: log_less_iff p add.commute)
qed

lemma quantum_normal:
  assumes "2 powi e \<le> \<bar>x\<bar>" and "\<bar>x\<bar> < 2 powi (e + 1)" and "- 1022 \<le> e"
  shows "quantum x = 2 powi (e - 52)"
  using floor_log2_eq[OF assms(1,2)] assms(3) by (simp add: quantum_def max_def)

lemma log2_less_powi:
  assumes "0 < a" and "a < 2 powi k"
  shows "log 2 a < of_int k"
  using assms by (simp add: log_less_iff powr_real_of_int')

lemma quantum_subnormal:
  assumes "x \<noteq> 0" and "\<bar>x\<bar> < 2 powi (- 1022)"
  shows "quantum x = 2 powi (- 1074)"
proof -
  have pos: "0 < \<bar>x\<bar>" using assms(1) by simp
  have "log 2 \<bar>x\<bar> < of_int (- 1022)"
    using pos assms(2) by (rule log2_less_powi)
  then have "\<lfloor>log 2 \<bar>x\<bar>\<rfloor> < - 1022" by linarith
  then have "max \<lfloor>log 2 \<bar>x\<bar>\<rfloor> (- 1022) - 52 = - 1074" by simp
  then show ?thesis unfolding quantum_def by (simp only:)
qed


lemma round_half_even_between:
  assumes "of_int n - 1 / 2 < y" and "y < of_int n + 1 / 2"
  shows "round_half_even y = n"
proof -
  have "\<lfloor>y\<rfloor> = n \<or> \<lfloor>y\<rfloor> = n - 1" using assms by linarith
  then show ?thesis
  proof
    assume f: "\<lfloor>y\<rfloor> = n"
    then have "y - of_int n < 1 / 2" using assms(2) by linarith
    then show ?thesis by (simp add: round_half_even_def f)
  next
    assume f: "\<lfloor>y\<rfloor> = n - 1"
    then have "1 / 2 < y - of_int (n - 1)" using assms(1) by simp
    then show ?thesis by (simp add: round_half_even_def f)
  qed
qed

lemma powi_add1: "(2::real) powi (e + 1) = 2 * 2 powi e"
  by (simp add: power_int_add)

lemma powi_split: "(2::real) powi e = 2 ^ 52 * 2 powi (e - 52)"
proof -
  have "(2::real) powi e = 2 powi (52 + (e - 52))" by simp
  also have "\<dots> = 2 powi 52 * 2 powi (e - 52)" by (rule power_int_add) simp
  finally show ?thesis by simp
qed

lemma rnd_eval_normal:
  assumes "2 powi e \<le> \<bar>x\<bar>" and "\<bar>x\<bar> < 2 powi (e + 1)"
    and "- 1022 \<le> e" and "e < 1023"
    and "round_half_even (x / 2 powi (e - 52)) = n" and "\<bar>n\<bar> \<le> 2 ^ 53"
  shows "rnd x = Fin (of_int n * 2 powi (e - 52))"
proof -
  define q :: real where "q = 2 powi (e - 52)"
  have qpos: "0 < q" by (simp add: q_def)
  have "(0::real) < 2 powi e" by simp
  then have "0 < \<bar>x\<bar>" using assms(1) by linarith
  then have x0: "x \<noteq> 0" by simp
  have qx: "quantum x = q" unfolding q_def using assms(1,2,3) by (rule quantum_normal)
  have "\<bar>of_int n * q\<bar> = of_int \<bar>n\<bar> * q" using qpos by (simp add: abs_mult)
  also have "\<dots> \<le> 2 ^ 53 * q"
  proof -
    have "(of_int \<bar>n\<bar> :: real) \<le> of_int (2 ^ 53)" using assms(6) by (simp only: of_int_le_iff)
    then show ?thesis using qpos by simp
  qed
  also have "\<dots> = 2 powi (e + 1)" unfolding q_def by (simp add: powi_split[of e] powi_add1)
  also have "\<dots> \<le> 2 powi 1023" using assms(4) by (intro power_int_increasing) simp_all
  also have "\<dots> < 2 ^ 1024" by simp
  finally have b: "\<bar>of_int n * q\<bar> < 2 ^ 1024" .
  then have "\<not> 2 ^ 1024 \<le> of_int n * q" and "\<not> of_int n * q \<le> - (2 ^ 1024)" by linarith+
  then show ?thesis
    using x0 assms(5) by (simp add: rnd_def qx Let_def q_def[symmetric])
qed

lemma rnd_sqrt_eval:
  assumes "- 1022 \<le> e" and "e < 1023" and "2 ^ 52 < n" and "n < 2 ^ 53"
    and "((of_int n - 1 / 2) * 2 powi (e - 52))\<^sup>2 < x"
    and "x < ((of_int n + 1 / 2) * 2 powi (e - 52))\<^sup>2"
  shows "rnd (sqrt x) = Fin (of_int n * 2 powi (e - 52))"
proof -
  define q :: real where "q = 2 powi (e - 52)"
  have qpos: "0 < q" by (simp add: q_def)
  have n1: "(2 ^ 52 :: real) + 1 \<le> of_int n"
  proof -
    have "(2 ^ 52 :: int) + 1 \<le> n" using assms(3) by simp
    then have "(of_int ((2 ^ 52 :: int) + 1) :: real) \<le> of_int n" by (simp only: of_int_le_iff)
    then show ?thesis by simp
  qed
  have n2: "(of_int n :: real) \<le> 2 ^ 53 - 1"
  proof -
    have "n \<le> (2 ^ 53 :: int) - 1" using assms(4) by simp
    then have "(of_int n :: real) \<le> of_int ((2 ^ 53 :: int) - 1)" by (simp only: of_int_le_iff)
    then show ?thesis by simp
  qed
  have lo0: "0 \<le> (of_int n - 1 / 2) * q" using n1 qpos by simp
  have hi0: "0 \<le> (of_int n + 1 / 2) * q" using n1 qpos by simp
  have lo: "(of_int n - 1 / 2) * q < sqrt x"
    using assms(5) lo0 unfolding q_def[symmetric] by (rule_tac real_less_rsqrt) 
  have "(0::real) \<le> ((of_int n - 1 / 2) * 2 powi (e - 52))\<^sup>2" by (rule zero_le_power2)
  then have x0: "0 \<le> x" using assms(5) by linarith
  have hi: "sqrt x < (of_int n + 1 / 2) * q"
    using assms(6) hi0 x0 unfolding q_def[symmetric]
    by (metis abs_of_nonneg real_sqrt_abs real_sqrt_less_iff)
  have e1: "2 powi e \<le> \<bar>sqrt x\<bar>"
  proof -
    have "2 powi e = 2 ^ 52 * q" unfolding q_def by (rule powi_split)
    also have "\<dots> \<le> (of_int n - 1 / 2) * q" using n1 qpos by simp
    also have "\<dots> \<le> \<bar>sqrt x\<bar>" using lo by simp
    finally show ?thesis .
  qed
  have e2: "\<bar>sqrt x\<bar> < 2 powi (e + 1)"
  proof -
    have "\<bar>sqrt x\<bar> = sqrt x" using x0 by simp
    also have "\<dots> < (of_int n + 1 / 2) * q" by (rule hi)
    also have "\<dots> \<le> 2 ^ 53 * q" using n2 qpos by simp
    also have "\<dots> = 2 powi (e + 1)" unfolding q_def by (simp add: powi_split[of e] powi_add1)
    finally show ?thesis .
  qed
  have r: "round_half_even (sqrt x / 2 powi (e - 52)) = n"
  proof (rule round_half_even_between)
    show "of_int n - 1 / 2 < sqrt x / 2 powi (e - 52)"
      using lo qpos unfolding q_def[symmetric] by (simp add: pos_less_divide_eq)
    show "sqrt x / 2 powi (e - 52) < of_int n + 1 / 2"
      using hi qpos unfolding q_def[symmetric] by (simp add: pos_divide_less_eq)
  qed
  have "\<bar>n\<bar> \<le> 2 ^ 53" using assms(3,4) by simp
  with e1 e2 assms(1,2) r show ?thesis by (rule rnd_eval_normal)
qed

lemma fadd_Fin: "fadd (Fin x) (Fin y) = rnd (x + y)" by (simp add: fadd_def)
lemma fsub_Fin: "fsub (Fin x) (Fin y) = rnd (x - y)" by (simp add: fsub_def fneg_def fadd_def)
lemma fmul_Fin: "fmul (Fin x) (Fin y) = rnd (x * y)" by (simp add: fmul_def)
lemma fdiv_Fin: "y \<noteq> 0 \<Longrightarrow> fdiv (Fin x) (Fin y) = rnd (x / y)" by (simp add: fdiv_def)
lemma fsqrt_Fin: "0 \<le> x \<Longrightarrow> fsqrt (Fin x) = rnd (sqrt x)" by (simp add: fsqrt_def)

lemma fmul_commute: "fmul a b = fmul b a"
  by (cases a; cases b) (simp_all add: fmul_def mult.commute)

lemma fadd_commute: "fadd a b = fadd b a"
  by (cases a; cases b) (simp_all add: fadd_def add.commute)

section \<open>Symmetry of the correlation\<close>

lemma zip_map_swap:
  "map (\<lambda>(x, y). f x y) (zip xs ys) = map (\<lambda>(y, x). f x y) (zip ys xs)"
proof (induction xs arbitrary: ys)
  case Nil
  show ?case by simp
next
  case (Cons x xs)
  show ?case by (cases ys) (simp_all add: Cons.IH)
qed

lemma pow2_error: "pow2 kind a = Inl e \<Longrightarrow> e = OverflowError"
  by (auto simp: pow2_def split: scalar_kind.splits fl.splits)

lemma comprehension_pow2_error:
  "comprehension (\<lambda>a. pow2 kind (f a)) xs = Inl e \<Longrightarrow> e = OverflowError"
proof (induction xs)
  case Nil
  then show ?case by simp
next
  case (Cons x xs)
  then show ?case by (auto split: sum.splits dest: pow2_error)
qed

lemma numerator_commute:
  "fsum (map (\<lambda>(a, b). fmul (fsub a p) (fsub b q)) (zip xs ys))
     = fsum (map (\<lambda>(b, a). fmul (fsub b q) (fsub a p)) (zip ys xs))"
proof -
  have "map (\<lambda>(a, b). fmul (fsub a p) (fsub b q)) (zip xs ys)
      = map (\<lambda>(b, a). fmul (fsub a p) (fsub b q)) (zip ys xs)"
    by (rule zip_map_swap)
  also have "\<dots> = map (\<lambda>(b, a). fmul (fsub b q) (fsub a p)) (zip ys xs)"
    by (simp add: fmul_commute[of "fsub _ p"])
  finally show ?thesis by simp
qed

lemma calculate_pearson_commute:
  assumes "length a = length b"
  shows "calculate_pearson kind a b = calculate_pearson kind b a"
proof (cases "length a < 2")
  case True
  then show ?thesis using assms by (simp add: calculate_pearson_def)
next
  case False
  define mA where "mA = fdiv (fsum a) (Fin (real (length a)))"
  define mB where "mB = fdiv (fsum b) (Fin (real (length b)))"
  define cA where "cA = comprehension (\<lambda>x. pow2 kind (fsub x mA)) a"
  define cB where "cB = comprehension (\<lambda>x. pow2 kind (fsub x mB)) b"
  have guards: "\<not> length a < 2" "\<not> length b < 2" "length a \<noteq> 0" "length b \<noteq> 0"
    using False assms by auto
  have num: "fsum (map (\<lambda>(x, y). fmul (fsub x mA) (fsub y mB)) (zip a b))
           = fsum (map (\<lambda>(y, x). fmul (fsub y mB) (fsub x mA)) (zip b a))"
    by (rule numerator_commute)
  have l: "calculate_pearson kind a b =
     (case cA of Inl e \<Rightarrow> Inl e
      | Inr sA \<Rightarrow> (case cB of Inl e \<Rightarrow> Inl e
          | Inr sB \<Rightarrow> if fsum sA = Fin 0 \<or> fsum sB = Fin 0 then Inr (Fin 0)
                       else Inr (fdiv (fsum (map (\<lambda>(x, y). fmul (fsub x mA) (fsub y mB)) (zip a b)))
                                   (fmul (fsqrt (fsum sA)) (fsqrt (fsum sB))))))"
    unfolding calculate_pearson_def Let_def mA_def[symmetric] mB_def[symmetric]
      cA_def[symmetric] cB_def[symmetric]
    by (simp only: guards if_False)
  have r: "calculate_pearson kind b a =
     (case cB of Inl e \<Rightarrow> Inl e
      | Inr sB \<Rightarrow> (case cA of Inl e \<Rightarrow> Inl e
          | Inr sA \<Rightarrow> if fsum sB = Fin 0 \<or> fsum sA = Fin 0 then Inr (Fin 0)
                       else Inr (fdiv (fsum (map (\<lambda>(y, x). fmul (fsub y mB) (fsub x mA)) (zip b a)))
                                   (fmul (fsqrt (fsum sB)) (fsqrt (fsum sA))))))"
    unfolding calculate_pearson_def Let_def mA_def[symmetric] mB_def[symmetric]
      cA_def[symmetric] cB_def[symmetric]
    by (simp only: guards if_False)
  show ?thesis
  proof (cases cA)
    case (Inl e1)
    then have e1: "e1 = OverflowError" unfolding cA_def by (rule comprehension_pow2_error)
    show ?thesis
    proof (cases cB)
      case (Inl e2)
      then have "e2 = OverflowError" unfolding cB_def by (rule comprehension_pow2_error)
      then show ?thesis using e1 \<open>cA = Inl e1\<close> Inl by (simp add: l r)
    next
      case (Inr sB)
      then show ?thesis using \<open>cA = Inl e1\<close> by (simp add: l r)
    qed
  next
    case (Inr sA)
    show ?thesis
    proof (cases cB)
      case (Inl e2)
      then show ?thesis using Inr by (simp add: l r)
    next
      case (Inr sB)
      then show ?thesis
        using \<open>cA = Inr sA\<close> by (auto simp: l r num fmul_commute[of "fsqrt (fsum sA)"])
    qed
  qed
qed

lemma pearsonr_commute: "pearsonr x y = pearsonr y x"
proof -
  have sgn: "\<And>p q. (case (p, q) of (Some s, Some t) \<Rightarrow> Inr (Some (s * t)) | _ \<Rightarrow> Inr None)
        = ((case (q, p) of (Some s, Some t) \<Rightarrow> Inr (Some (s * t)) | _ \<Rightarrow> Inr None)
             :: error + real option)"
    by (auto split: option.splits)
  have dot: "\<And>xm ym (n :: fl) m. fsum (map (\<lambda>(a, b). fmul (fdiv a n) (fdiv b m)) (zip xm ym))
       = fsum (map (\<lambda>(b, a). fmul (fdiv b m) (fdiv a n)) (zip ym xm))"
  proof -
    fix xm ym :: "fl list" and n m :: fl
    have "map (\<lambda>(a, b). fmul (fdiv a n) (fdiv b m)) (zip xm ym)
        = map (\<lambda>(b, a). fmul (fdiv a n) (fdiv b m)) (zip ym xm)"
      by (rule zip_map_swap)
    also have "\<dots> = map (\<lambda>(b, a). fmul (fdiv b m) (fdiv a n)) (zip ym xm)"
      by (simp add: fmul_commute[of "fdiv _ n"])
    finally show "fsum (map (\<lambda>(a, b). fmul (fdiv a n) (fdiv b m)) (zip xm ym))
       = fsum (map (\<lambda>(b, a). fmul (fdiv b m) (fdiv a n)) (zip ym xm))" by simp
  qed
  show ?thesis
    unfolding pearsonr_def Let_def
    by (auto simp: dot mult.commute split: option.splits)
qed

text \<open>
  Claim C10. Both Pearson functions are symmetric on vectors of the same length, although
  the length guard reads only the first argument. Rounding does not disturb this: the
  product of two doubles does not depend on their order, and both calls add the same
  terms in the same order.
\<close>

theorem pearson_symmetric:
  assumes "length a = length b"
  shows "calculate_pearson kind a b = calculate_pearson kind b a
       \<and> calculate_pearson_correlation a b = calculate_pearson_correlation b a"
proof -
  have "calculate_pearson kind a b = calculate_pearson kind b a"
    using assms by (rule calculate_pearson_commute)
  moreover have "calculate_pearson_correlation a b = calculate_pearson_correlation b a"
    using assms by (auto simp: calculate_pearson_correlation_def pearsonr_commute[of a b])
  ultimately show ?thesis by simp
qed

theorem pearson_symmetric_witness:
  "length [Fin 1, Fin 2, Fin 4] = length [Fin 3, Fin 1, Fin 2]
   \<and> calculate_pearson PyFloat [Fin 1, Fin 2, Fin 4] [Fin 3, Fin 1, Fin 2]
       = calculate_pearson PyFloat [Fin 3, Fin 1, Fin 2] [Fin 1, Fin 2, Fin 4]
   \<and> calculate_pearson_correlation [Fin 1, Fin 2, Fin 4] [Fin 3, Fin 1, Fin 2]
       = calculate_pearson_correlation [Fin 3, Fin 1, Fin 2] [Fin 1, Fin 2, Fin 4]"
  using pearson_symmetric [of "[Fin 1, Fin 2, Fin 4]" "[Fin 3, Fin 1, Fin 2]" PyFloat]
  by simp

section \<open>The code on concrete vectors\<close>

text \<open>
  Each of the first lemmas evaluates one operation on doubles, from the binary
  exponent of the exact result and the integer it rounds to. The values of the two
  Pearson functions on concrete vectors follow by running the definitions.
\<close>

lemma double_op_1: "fadd (Fin 0) (Fin 4) = Fin 4"
  using rnd_eval_normal [of "2" "0 + 4" "4503599627370496"]
  by (simp add: fadd_Fin round_half_even_def)

lemma double_op_2: "fadd (Fin 4) (Fin 5) = Fin 9"
  using rnd_eval_normal [of "3" "4 + 5" "5066549580791808"]
  by (simp add: fadd_Fin round_half_even_def)

lemma double_op_3: "fdiv (Fin 9) (Fin 2) = Fin (9 / 2)"
  using rnd_eval_normal [of "2" "9 / 2" "5066549580791808"]
  by (simp add: fdiv_Fin round_half_even_def)

lemma double_op_4: "fsub (Fin 4) (Fin (9 / 2)) = Fin (- (1 / 2))"
  using rnd_eval_normal [of "- 1" "4 - (9 / 2)" "- 4503599627370496"]
  by (simp add: fsub_Fin round_half_even_def)

lemma double_op_5: "fsub (Fin 5) (Fin (9 / 2)) = Fin (1 / 2)"
  using rnd_eval_normal [of "- 1" "5 - (9 / 2)" "4503599627370496"]
  by (simp add: fsub_Fin round_half_even_def)

lemma double_op_6: "fmul (Fin (- (1 / 2))) (Fin (- (1 / 2))) = Fin (1 / 4)"
  using rnd_eval_normal [of "- 2" "(- (1 / 2)) * (- (1 / 2))" "4503599627370496"]
  by (simp add: fmul_Fin round_half_even_def)

lemma double_op_7: "fmul (Fin (1 / 2)) (Fin (1 / 2)) = Fin (1 / 4)"
  using rnd_eval_normal [of "- 2" "(1 / 2) * (1 / 2)" "4503599627370496"]
  by (simp add: fmul_Fin round_half_even_def)

lemma double_op_8: "fadd (Fin 0) (Fin (1 / 4)) = Fin (1 / 4)"
  using rnd_eval_normal [of "- 2" "0 + (1 / 4)" "4503599627370496"]
  by (simp add: fadd_Fin round_half_even_def)

lemma double_op_9: "fadd (Fin (1 / 4)) (Fin (1 / 4)) = Fin (1 / 2)"
  using rnd_eval_normal [of "- 1" "(1 / 4) + (1 / 4)" "4503599627370496"]
  by (simp add: fadd_Fin round_half_even_def)

lemma double_op_10: "fsqrt (Fin (1 / 2)) = Fin (6369051672525773 / 9007199254740992)"
  using rnd_sqrt_eval [of "- 1" "6369051672525773" "1 / 2"]
  by (simp add: fsqrt_Fin power2_eq_square)

lemma double_op_11: "fmul (Fin (6369051672525773 / 9007199254740992)) (Fin (6369051672525773 / 9007199254740992)) = Fin (4503599627370497 / 9007199254740992)"
  using rnd_eval_normal [of "- 1" "(6369051672525773 / 9007199254740992) * (6369051672525773 / 9007199254740992)" "4503599627370497"]
  by (simp add: fmul_Fin round_half_even_def)

lemma double_op_12: "fdiv (Fin (1 / 2)) (Fin (4503599627370497 / 9007199254740992)) = Fin (4503599627370495 / 4503599627370496)"
  using rnd_eval_normal [of "- 1" "(1 / 2) / (4503599627370497 / 9007199254740992)" "9007199254740990"]
  by (simp add: fdiv_Fin round_half_even_def)

lemma double_op_13: "fadd (Fin 0) (Fin 1) = Fin 1"
  using rnd_eval_normal [of "0" "0 + 1" "4503599627370496"]
  by (simp add: fadd_Fin round_half_even_def)

lemma double_op_14: "fadd (Fin 1) (Fin 4) = Fin 5"
  using rnd_eval_normal [of "2" "1 + 4" "5629499534213120"]
  by (simp add: fadd_Fin round_half_even_def)

lemma double_op_15: "fdiv (Fin 5) (Fin 2) = Fin (5 / 2)"
  using rnd_eval_normal [of "1" "5 / 2" "5629499534213120"]
  by (simp add: fdiv_Fin round_half_even_def)

lemma double_op_16: "fsub (Fin 1) (Fin (5 / 2)) = Fin (- (3 / 2))"
  using rnd_eval_normal [of "0" "1 - (5 / 2)" "- 6755399441055744"]
  by (simp add: fsub_Fin round_half_even_def)

lemma double_op_17: "fsub (Fin 4) (Fin (5 / 2)) = Fin (3 / 2)"
  using rnd_eval_normal [of "0" "4 - (5 / 2)" "6755399441055744"]
  by (simp add: fsub_Fin round_half_even_def)

lemma double_op_18: "fmul (Fin (- (3 / 2))) (Fin (- (3 / 2))) = Fin (9 / 4)"
  using rnd_eval_normal [of "1" "(- (3 / 2)) * (- (3 / 2))" "5066549580791808"]
  by (simp add: fmul_Fin round_half_even_def)

lemma double_op_19: "fmul (Fin (3 / 2)) (Fin (3 / 2)) = Fin (9 / 4)"
  using rnd_eval_normal [of "1" "(3 / 2) * (3 / 2)" "5066549580791808"]
  by (simp add: fmul_Fin round_half_even_def)

lemma double_op_20: "fadd (Fin 0) (Fin (9 / 4)) = Fin (9 / 4)"
  using rnd_eval_normal [of "1" "0 + (9 / 4)" "5066549580791808"]
  by (simp add: fadd_Fin round_half_even_def)

lemma double_op_21: "fadd (Fin (9 / 4)) (Fin (9 / 4)) = Fin (9 / 2)"
  using rnd_eval_normal [of "2" "(9 / 4) + (9 / 4)" "5066549580791808"]
  by (simp add: fadd_Fin round_half_even_def)

lemma double_op_22: "fsqrt (Fin (9 / 2)) = Fin (4776788754394329 / 2251799813685248)"
  using rnd_sqrt_eval [of "1" "4776788754394329" "9 / 2"]
  by (simp add: fsqrt_Fin power2_eq_square)

lemma double_op_23: "fmul (Fin (4776788754394329 / 2251799813685248)) (Fin (4776788754394329 / 2251799813685248)) = Fin (5066549580791807 / 1125899906842624)"
  using rnd_eval_normal [of "2" "(4776788754394329 / 2251799813685248) * (4776788754394329 / 2251799813685248)" "5066549580791807"]
  by (simp add: fmul_Fin round_half_even_def)

lemma double_op_24: "fdiv (Fin (9 / 2)) (Fin (5066549580791807 / 1125899906842624)) = Fin (4503599627370497 / 4503599627370496)"
  using rnd_eval_normal [of "0" "(9 / 2) / (5066549580791807 / 1125899906842624)" "4503599627370497"]
  by (simp add: fdiv_Fin round_half_even_def)

lemma double_op_25: "fadd (Fin 4) (Fin 1) = Fin 5"
  using rnd_eval_normal [of "2" "4 + 1" "5629499534213120"]
  by (simp add: fadd_Fin round_half_even_def)

lemma double_op_26: "fmul (Fin (- (3 / 2))) (Fin (3 / 2)) = Fin (- (9 / 4))"
  using rnd_eval_normal [of "1" "(- (3 / 2)) * (3 / 2)" "- 5066549580791808"]
  by (simp add: fmul_Fin round_half_even_def)

lemma double_op_27: "fmul (Fin (3 / 2)) (Fin (- (3 / 2))) = Fin (- (9 / 4))"
  using rnd_eval_normal [of "1" "(3 / 2) * (- (3 / 2))" "- 5066549580791808"]
  by (simp add: fmul_Fin round_half_even_def)

lemma double_op_28: "fadd (Fin 0) (Fin (- (9 / 4))) = Fin (- (9 / 4))"
  using rnd_eval_normal [of "1" "0 + (- (9 / 4))" "- 5066549580791808"]
  by (simp add: fadd_Fin round_half_even_def)

lemma double_op_29: "fadd (Fin (- (9 / 4))) (Fin (- (9 / 4))) = Fin (- (9 / 2))"
  using rnd_eval_normal [of "2" "(- (9 / 4)) + (- (9 / 4))" "- 5066549580791808"]
  by (simp add: fadd_Fin round_half_even_def)

lemma double_op_30: "fdiv (Fin (- (9 / 2))) (Fin (5066549580791807 / 1125899906842624)) = Fin (- (4503599627370497 / 4503599627370496))"
  using rnd_eval_normal [of "0" "(- (9 / 2)) / (5066549580791807 / 1125899906842624)" "- 4503599627370497"]
  by (simp add: fdiv_Fin round_half_even_def)

lemma double_op_31: "fadd (Fin 0) (Fin (3602879701896397 / 36028797018963968)) = Fin (3602879701896397 / 36028797018963968)"
  using rnd_eval_normal [of "- 4" "0 + (3602879701896397 / 36028797018963968)" "7205759403792794"]
  by (simp add: fadd_Fin round_half_even_def)

lemma double_op_32: "fadd (Fin (3602879701896397 / 36028797018963968)) (Fin (3602879701896397 / 36028797018963968)) = Fin (3602879701896397 / 18014398509481984)"
  using rnd_eval_normal [of "- 3" "(3602879701896397 / 36028797018963968) + (3602879701896397 / 36028797018963968)" "7205759403792794"]
  by (simp add: fadd_Fin round_half_even_def)

lemma double_op_33: "fadd (Fin (3602879701896397 / 18014398509481984)) (Fin (3602879701896397 / 36028797018963968)) = Fin (1351079888211149 / 4503599627370496)"
  using rnd_eval_normal [of "- 2" "(3602879701896397 / 18014398509481984) + (3602879701896397 / 36028797018963968)" "5404319552844596"]
  by (simp add: fadd_Fin round_half_even_def)

lemma double_op_34: "fdiv (Fin (1351079888211149 / 4503599627370496)) (Fin 3) = Fin (7205759403792795 / 72057594037927936)"
  using rnd_eval_normal [of "- 4" "(1351079888211149 / 4503599627370496) / 3" "7205759403792795"]
  by (simp add: fdiv_Fin round_half_even_def)

lemma double_op_35: "fadd (Fin 1) (Fin 2) = Fin 3"
  using rnd_eval_normal [of "1" "1 + 2" "6755399441055744"]
  by (simp add: fadd_Fin round_half_even_def)

lemma double_op_36: "fadd (Fin 3) (Fin 4) = Fin 7"
  using rnd_eval_normal [of "2" "3 + 4" "7881299347898368"]
  by (simp add: fadd_Fin round_half_even_def)

lemma double_op_37: "fdiv (Fin 7) (Fin 3) = Fin (5254199565265579 / 2251799813685248)"
  using rnd_eval_normal [of "1" "7 / 3" "5254199565265579"]
  by (simp add: fdiv_Fin round_half_even_def)

lemma double_op_38: "fsub (Fin (3602879701896397 / 36028797018963968)) (Fin (7205759403792795 / 72057594037927936)) = Fin (- (1 / 72057594037927936))"
  using rnd_eval_normal [of "- 56" "(3602879701896397 / 36028797018963968) - (7205759403792795 / 72057594037927936)" "- 4503599627370496"]
  by (simp add: fsub_Fin round_half_even_def)

lemma double_op_39: "fsub (Fin 1) (Fin (5254199565265579 / 2251799813685248)) = Fin (- (3002399751580331 / 2251799813685248))"
  using rnd_eval_normal [of "0" "1 - (5254199565265579 / 2251799813685248)" "- 6004799503160662"]
  by (simp add: fsub_Fin round_half_even_def)

lemma double_op_40: "fsub (Fin 2) (Fin (5254199565265579 / 2251799813685248)) = Fin (- (750599937895083 / 2251799813685248))"
  using rnd_eval_normal [of "- 2" "2 - (5254199565265579 / 2251799813685248)" "- 6004799503160664"]
  by (simp add: fsub_Fin round_half_even_def)

lemma double_op_41: "fsub (Fin 4) (Fin (5254199565265579 / 2251799813685248)) = Fin (3752999689475413 / 2251799813685248)"
  using rnd_eval_normal [of "0" "4 - (5254199565265579 / 2251799813685248)" "7505999378950826"]
  by (simp add: fsub_Fin round_half_even_def)

lemma double_op_42: "fmul (Fin (- (1 / 72057594037927936))) (Fin (- (3002399751580331 / 2251799813685248))) = Fin (3002399751580331 / 162259276829213363391578010288128)"
  using rnd_eval_normal [of "- 56" "(- (1 / 72057594037927936)) * (- (3002399751580331 / 2251799813685248))" "6004799503160662"]
  by (simp add: fmul_Fin round_half_even_def)

lemma double_op_43: "fmul (Fin (- (1 / 72057594037927936))) (Fin (- (750599937895083 / 2251799813685248))) = Fin (750599937895083 / 162259276829213363391578010288128)"
  using rnd_eval_normal [of "- 58" "(- (1 / 72057594037927936)) * (- (750599937895083 / 2251799813685248))" "6004799503160664"]
  by (simp add: fmul_Fin round_half_even_def)

lemma double_op_44: "fmul (Fin (- (1 / 72057594037927936))) (Fin (3752999689475413 / 2251799813685248)) = Fin (- (3752999689475413 / 162259276829213363391578010288128))"
  using rnd_eval_normal [of "- 56" "(- (1 / 72057594037927936)) * (3752999689475413 / 2251799813685248)" "- 7505999378950826"]
  by (simp add: fmul_Fin round_half_even_def)

lemma double_op_45: "fadd (Fin 0) (Fin (3002399751580331 / 162259276829213363391578010288128)) = Fin (3002399751580331 / 162259276829213363391578010288128)"
  using rnd_eval_normal [of "- 56" "0 + (3002399751580331 / 162259276829213363391578010288128)" "6004799503160662"]
  by (simp add: fadd_Fin round_half_even_def)

lemma double_op_46: "fadd (Fin (3002399751580331 / 162259276829213363391578010288128)) (Fin (750599937895083 / 162259276829213363391578010288128)) = Fin (1876499844737707 / 81129638414606681695789005144064)"
  using rnd_eval_normal [of "- 56" "(3002399751580331 / 162259276829213363391578010288128) + (750599937895083 / 162259276829213363391578010288128)" "7505999378950828"]
  by (simp add: fadd_Fin round_half_even_def)

lemma double_op_47: "fadd (Fin (1876499844737707 / 81129638414606681695789005144064)) (Fin (- (3752999689475413 / 162259276829213363391578010288128))) = Fin (1 / 162259276829213363391578010288128)"
  using rnd_eval_normal [of "- 107" "(1876499844737707 / 81129638414606681695789005144064) + (- (3752999689475413 / 162259276829213363391578010288128))" "4503599627370496"]
  by (simp add: fadd_Fin round_half_even_def)

lemma double_op_48: "fmul (Fin (- (1 / 72057594037927936))) (Fin (- (1 / 72057594037927936))) = Fin (1 / 5192296858534827628530496329220096)"
  using rnd_eval_normal [of "- 112" "(- (1 / 72057594037927936)) * (- (1 / 72057594037927936))" "4503599627370496"]
  by (simp add: fmul_Fin round_half_even_def)

lemma double_op_49: "fadd (Fin 0) (Fin (1 / 5192296858534827628530496329220096)) = Fin (1 / 5192296858534827628530496329220096)"
  using rnd_eval_normal [of "- 112" "0 + (1 / 5192296858534827628530496329220096)" "4503599627370496"]
  by (simp add: fadd_Fin round_half_even_def)

lemma double_op_50: "fadd (Fin (1 / 5192296858534827628530496329220096)) (Fin (1 / 5192296858534827628530496329220096)) = Fin (1 / 2596148429267413814265248164610048)"
  using rnd_eval_normal [of "- 111" "(1 / 5192296858534827628530496329220096) + (1 / 5192296858534827628530496329220096)" "4503599627370496"]
  by (simp add: fadd_Fin round_half_even_def)

lemma double_op_51: "fadd (Fin (1 / 2596148429267413814265248164610048)) (Fin (1 / 5192296858534827628530496329220096)) = Fin (3 / 5192296858534827628530496329220096)"
  using rnd_eval_normal [of "- 111" "(1 / 2596148429267413814265248164610048) + (1 / 5192296858534827628530496329220096)" "6755399441055744"]
  by (simp add: fadd_Fin round_half_even_def)

lemma double_op_52: "fmul (Fin (- (3002399751580331 / 2251799813685248))) (Fin (- (3002399751580331 / 2251799813685248))) = Fin (4003199668773775 / 2251799813685248)"
  using rnd_eval_normal [of "0" "(- (3002399751580331 / 2251799813685248)) * (- (3002399751580331 / 2251799813685248))" "8006399337547550"]
  by (simp add: fmul_Fin round_half_even_def)

lemma double_op_53: "fmul (Fin (- (750599937895083 / 2251799813685248))) (Fin (- (750599937895083 / 2251799813685248))) = Fin (2001599834386889 / 18014398509481984)"
  using rnd_eval_normal [of "- 4" "(- (750599937895083 / 2251799813685248)) * (- (750599937895083 / 2251799813685248))" "8006399337547556"]
  by (simp add: fmul_Fin round_half_even_def)

lemma double_op_54: "fmul (Fin (3752999689475413 / 2251799813685248)) (Fin (3752999689475413 / 2251799813685248)) = Fin (6254999482459021 / 2251799813685248)"
  using rnd_eval_normal [of "1" "(3752999689475413 / 2251799813685248) * (3752999689475413 / 2251799813685248)" "6254999482459021"]
  by (simp add: fmul_Fin round_half_even_def)

lemma double_op_55: "fadd (Fin 0) (Fin (4003199668773775 / 2251799813685248)) = Fin (4003199668773775 / 2251799813685248)"
  using rnd_eval_normal [of "0" "0 + (4003199668773775 / 2251799813685248)" "8006399337547550"]
  by (simp add: fadd_Fin round_half_even_def)

lemma double_op_56: "fadd (Fin (4003199668773775 / 2251799813685248)) (Fin (2001599834386889 / 18014398509481984)) = Fin (531674956009017 / 281474976710656)"
  using rnd_eval_normal [of "0" "(4003199668773775 / 2251799813685248) + (2001599834386889 / 18014398509481984)" "8506799296144272"]
  by (simp add: fadd_Fin round_half_even_def)

lemma double_op_57: "fadd (Fin (531674956009017 / 281474976710656)) (Fin (6254999482459021 / 2251799813685248)) = Fin (2627099782632789 / 562949953421312)"
  using rnd_eval_normal [of "2" "(531674956009017 / 281474976710656) + (6254999482459021 / 2251799813685248)" "5254199565265578"]
  by (simp add: fadd_Fin round_half_even_def)

lemma double_op_58: "fsqrt (Fin (3 / 5192296858534827628530496329220096)) = Fin (3900231685776981 / 162259276829213363391578010288128)"
  using rnd_sqrt_eval [of "- 56" "7800463371553962" "3 / 5192296858534827628530496329220096"]
  by (simp add: fsqrt_Fin power2_eq_square)

lemma double_op_59: "fsqrt (Fin (2627099782632789 / 562949953421312)) = Fin (2432221782869537 / 1125899906842624)"
  using rnd_sqrt_eval [of "1" "4864443565739074" "2627099782632789 / 562949953421312"]
  by (simp add: fsqrt_Fin power2_eq_square)

lemma double_op_60: "fmul (Fin (3900231685776981 / 162259276829213363391578010288128)) (Fin (2432221782869537 / 1125899906842624)) = Fin (1053182925801449 / 20282409603651670423947251286016)"
  using rnd_eval_normal [of "- 55" "(3900231685776981 / 162259276829213363391578010288128) * (2432221782869537 / 1125899906842624)" "8425463406411592"]
  by (simp add: fmul_Fin round_half_even_def)

lemma double_op_61: "fdiv (Fin (1 / 162259276829213363391578010288128)) (Fin (1053182925801449 / 20282409603651670423947251286016)) = Fin (2407275258974741 / 20282409603651670423947251286016)"
  using rnd_eval_normal [of "- 53" "(1 / 162259276829213363391578010288128) / (1053182925801449 / 20282409603651670423947251286016)" "4814550517949482"]
  by (simp add: fdiv_Fin round_half_even_def)

lemma double_op_62: "fadd (Fin 0) (Fin 2) = Fin 2"
  using rnd_eval_normal [of "1" "0 + 2" "4503599627370496"]
  by (simp add: fadd_Fin round_half_even_def)

lemma double_op_63: "fadd (Fin 2) (Fin 3) = Fin 5"
  using rnd_eval_normal [of "2" "2 + 3" "5629499534213120"]
  by (simp add: fadd_Fin round_half_even_def)

lemma double_op_64: "fsub (Fin 2) (Fin (5 / 2)) = Fin (- (1 / 2))"
  using rnd_eval_normal [of "- 1" "2 - (5 / 2)" "- 4503599627370496"]
  by (simp add: fsub_Fin round_half_even_def)

lemma double_op_65: "fsub (Fin 3) (Fin (5 / 2)) = Fin (1 / 2)"
  using rnd_eval_normal [of "- 1" "3 - (5 / 2)" "4503599627370496"]
  by (simp add: fsub_Fin round_half_even_def)

lemma double_op_66: "fdiv (Fin (1 / 2)) (Fin 2) = Fin (1 / 4)"
  using rnd_eval_normal [of "- 2" "(1 / 2) / 2" "4503599627370496"]
  by (simp add: fdiv_Fin round_half_even_def)

lemma double_op_67: "fsqrt (Fin (1 / 4)) = Fin (1 / 2)"
proof -
  have s: "sqrt (1 / 4) = (1 / 2)" by (rule real_sqrt_unique) (simp_all add: power2_eq_square)
  have r: "rnd (1 / 2) = Fin (1 / 2)"
    using rnd_eval_normal [of "- 1" "1 / 2" "4503599627370496"] by (simp add: round_half_even_def)
  show ?thesis by (simp add: fsqrt_def s r)
qed

lemma double_op_68: "fsub (Fin 5) (Fin 4) = Fin 1"
  using rnd_eval_normal [of "0" "5 - 4" "4503599627370496"]
  by (simp add: fsub_Fin round_half_even_def)

lemma double_op_69: "fsub (Fin 3) (Fin 2) = Fin 1"
  using rnd_eval_normal [of "0" "3 - 2" "4503599627370496"]
  by (simp add: fsub_Fin round_half_even_def)

lemma double_op_70: "fadd (Fin 4) (Fin 2) = Fin 6"
  using rnd_eval_normal [of "2" "4 + 2" "6755399441055744"]
  by (simp add: fadd_Fin round_half_even_def)

lemma double_op_71: "fdiv (Fin 6) (Fin 2) = Fin 3"
  using rnd_eval_normal [of "1" "6 / 2" "6755399441055744"]
  by (simp add: fdiv_Fin round_half_even_def)

lemma double_op_72: "fsub (Fin 4) (Fin 3) = Fin 1"
  using rnd_eval_normal [of "0" "4 - 3" "4503599627370496"]
  by (simp add: fsub_Fin round_half_even_def)

lemma double_op_73: "fsub (Fin 2) (Fin 3) = Fin (- 1)"
  using rnd_eval_normal [of "0" "2 - 3" "- 4503599627370496"]
  by (simp add: fsub_Fin round_half_even_def)

lemma double_op_74: "fmul (Fin 1) (Fin 1) = Fin 1"
  using rnd_eval_normal [of "0" "1 * 1" "4503599627370496"]
  by (simp add: fmul_Fin round_half_even_def)

lemma double_op_75: "fmul (Fin (- 1)) (Fin (- 1)) = Fin 1"
  using rnd_eval_normal [of "0" "(- 1) * (- 1)" "4503599627370496"]
  by (simp add: fmul_Fin round_half_even_def)

lemma double_op_76: "fadd (Fin 1) (Fin 1) = Fin 2"
  using rnd_eval_normal [of "1" "1 + 1" "4503599627370496"]
  by (simp add: fadd_Fin round_half_even_def)

lemma double_op_77: "fdiv (Fin 2) (Fin 2) = Fin 1"
  using rnd_eval_normal [of "0" "2 / 2" "4503599627370496"]
  by (simp add: fdiv_Fin round_half_even_def)

lemma double_op_78: "fsqrt (Fin 1) = Fin 1"
proof -
  have s: "sqrt 1 = 1" by (rule real_sqrt_unique) (simp_all add: power2_eq_square)
  have r: "rnd 1 = Fin 1"
    using rnd_eval_normal [of "0" "1" "4503599627370496"] by (simp add: round_half_even_def)
  show ?thesis by (simp add: fsqrt_def s r)
qed

lemma double_op_79: "fadd (Fin 0) (Fin 5) = Fin 5"
  using rnd_eval_normal [of "2" "0 + 5" "5629499534213120"]
  by (simp add: fadd_Fin round_half_even_def)

lemma double_op_80: "fadd (Fin 5) (Fin 3) = Fin 8"
  using rnd_eval_normal [of "3" "5 + 3" "4503599627370496"]
  by (simp add: fadd_Fin round_half_even_def)

lemma double_op_81: "fdiv (Fin 8) (Fin 2) = Fin 4"
  using rnd_eval_normal [of "2" "8 / 2" "4503599627370496"]
  by (simp add: fdiv_Fin round_half_even_def)

lemma double_op_82: "fsub (Fin 3) (Fin 4) = Fin (- 1)"
  using rnd_eval_normal [of "0" "3 - 4" "- 4503599627370496"]
  by (simp add: fsub_Fin round_half_even_def)

lemma double_op_83: "fsub (Fin 2) (Fin 4) = Fin (- 2)"
  using rnd_eval_normal [of "1" "2 - 4" "- 4503599627370496"]
  by (simp add: fsub_Fin round_half_even_def)

lemma double_op_84: "fsub (Fin 3) (Fin 5) = Fin (- 2)"
  using rnd_eval_normal [of "1" "3 - 5" "- 4503599627370496"]
  by (simp add: fsub_Fin round_half_even_def)

lemmas double_ops =
  double_op_1 double_op_2 double_op_3 double_op_4 double_op_5 double_op_6 double_op_7
  double_op_8 double_op_9 double_op_10 double_op_11 double_op_12 double_op_13
  double_op_14 double_op_15 double_op_16 double_op_17 double_op_18 double_op_19
  double_op_20 double_op_21 double_op_22 double_op_23 double_op_24 double_op_25
  double_op_26 double_op_27 double_op_28 double_op_29 double_op_30 double_op_31
  double_op_32 double_op_33 double_op_34 double_op_35 double_op_36 double_op_37
  double_op_38 double_op_39 double_op_40 double_op_41 double_op_42 double_op_43
  double_op_44 double_op_45 double_op_46 double_op_47 double_op_48 double_op_49
  double_op_50 double_op_51 double_op_52 double_op_53 double_op_54 double_op_55
  double_op_56 double_op_57 double_op_58 double_op_59 double_op_60 double_op_61
  double_op_62 double_op_63 double_op_64 double_op_65 double_op_66 double_op_67
  double_op_68 double_op_69 double_op_70 double_op_71 double_op_72 double_op_73
  double_op_74 double_op_75 double_op_76 double_op_77 double_op_78 double_op_79
  double_op_80 double_op_81 double_op_82 double_op_83 double_op_84

lemma pearson_value_4_5:
  "calculate_pearson kind [Fin 4, Fin 5] [Fin 4, Fin 5] = Inr (Fin (4503599627370495 / 4503599627370496))"
  by (cases kind)
     (simp_all add: calculate_pearson_def Let_def fsum_def pow2_def double_ops)

lemma pearson_value_1_4:
  "calculate_pearson kind [Fin 1, Fin 4] [Fin 1, Fin 4] = Inr (Fin (4503599627370497 / 4503599627370496))"
  by (cases kind)
     (simp_all add: calculate_pearson_def Let_def fsum_def pow2_def double_ops)

lemma pearson_value_1_4_reversed:
  "calculate_pearson kind [Fin 1, Fin 4] [Fin 4, Fin 1] = Inr (Fin (- (4503599627370497 / 4503599627370496)))"
  by (cases kind)
     (simp_all add: calculate_pearson_def Let_def fsum_def pow2_def double_ops)

lemma pearson_value_tenths:
  "calculate_pearson kind [Fin (3602879701896397 / 36028797018963968), Fin (3602879701896397 / 36028797018963968), Fin (3602879701896397 / 36028797018963968)] [Fin 1, Fin 2, Fin 4] = Inr (Fin (2407275258974741 / 20282409603651670423947251286016))"
  by (cases kind)
     (simp_all add: calculate_pearson_def Let_def fsum_def pow2_def double_ops)

lemma example_pearson:
  "calculate_pearson kind [Fin 4, Fin 5] [Fin 2, Fin 3] = Inr (Fin (4503599627370495 / 4503599627370496))"
  by (cases kind)
     (simp_all add: calculate_pearson_def Let_def fsum_def pow2_def double_ops)

lemma example_pearson_reversed:
  "calculate_pearson kind [Fin 2, Fin 3] [Fin 4, Fin 5] = Inr (Fin (4503599627370495 / 4503599627370496))"
  by (cases kind)
     (simp_all add: calculate_pearson_def Let_def fsum_def pow2_def double_ops)

lemma example_correlation_1:
  "calculate_pearson_correlation [Fin 4, Fin 5] [Fin 2, Fin 3] = 1"
  by (simp add: calculate_pearson_correlation_def np_std_def pearsonr_def Let_def fsum_def
      feq_def fsign_def double_ops)

lemma example_correlation_2:
  "calculate_pearson_correlation [Fin 4, Fin 2] [Fin 5, Fin 3] = 1"
  by (simp add: calculate_pearson_correlation_def np_std_def pearsonr_def Let_def fsum_def
      feq_def fsign_def double_ops)

lemma example_correlation_3:
  "calculate_pearson_correlation [Fin 5, Fin 3] [Fin 4, Fin 2] = 1"
  by (simp add: calculate_pearson_correlation_def np_std_def pearsonr_def Let_def fsum_def
      feq_def fsign_def double_ops)

lemma example_correlation_4: "calculate_pearson_correlation [Fin 4] [Fin 2] = 0"
  by (simp add: calculate_pearson_correlation_def)

section \<open>Degenerate inputs\<close>

lemma calculate_pearson_short:
  "length vecA < 2 \<Longrightarrow> calculate_pearson kind vecA vecB = Inr (Fin 0)"
  by (simp add: calculate_pearson_def)

lemma all_identical_iff: "all_identical xs \<longleftrightarrow> (\<forall>x \<in> set xs. \<forall>y \<in> set xs. x = y)"
  by (simp add: all_identical_def list_all_iff)

lemma all_identical_hd: "all_identical xs \<longleftrightarrow> (\<forall>x \<in> set xs. x = hd xs)"
proof (cases xs)
  case Nil
  then show ?thesis by (simp add: all_identical_iff)
next
  case (Cons a as)
  then have "hd xs \<in> set xs" by simp
  then show ?thesis unfolding all_identical_iff by metis
qed

lemma pearsonr_constant:
  assumes "length xs = length ys" and "2 \<le> length xs"
    and "all_identical xs \<or> all_identical ys"
  shows "pearsonr (map Fin xs) (map Fin ys) = Inr None"
proof -
  have ne: "xs \<noteq> []" "ys \<noteq> []" using assms(1,2) by auto
  have c: "\<And>zs. zs \<noteq> [] \<Longrightarrow>
      list_all (\<lambda>v. feq v (hd (map Fin zs))) (map Fin zs) = all_identical zs"
    by (simp add: all_identical_hd list_all_iff feq_def hd_map)
  show ?thesis
    using assms by (auto simp: pearsonr_def c[OF ne(1)] c[OF ne(2)])
qed

text \<open>
  The function of \<^verbatim>\<open>analyze_cf.py\<close> does return 0 on every degenerate pair: when the
  rounded standard deviation is not 0, the library's own test for a constant input
  compares the values themselves.
\<close>

lemma correlation_degenerate_zero:
  assumes "length xs = length ys"
    and "length xs < 2 \<or> all_identical xs \<or> all_identical ys"
  shows "calculate_pearson_correlation (map Fin xs) (map Fin ys) = 0"
proof (cases "length xs < 2")
  case True
  then show ?thesis by (simp add: calculate_pearson_correlation_def)
next
  case False
  then have "pearsonr (map Fin xs) (map Fin ys) = Inr None"
    using assms by (intro pearsonr_constant) auto
  then show ?thesis by (simp add: calculate_pearson_correlation_def)
qed

text \<open>
  Claim C1 fails on \<^verbatim>\<open>calculate_pearson\<close>. The vector that holds the double nearest to
  0.1 three times has zero variance, but its sum rounds up and the mean is the next
  double above 0.1; the three deviations are not 0, \<^verbatim>\<open>denominatorA == 0\<close> is false, and
  the function returns about 1.19e-16 against the vector 1, 2, 4, for plain Python floats
  and for NumPy doubles alike.
\<close>

theorem zero_variance_guard_missed:
  "all_identical
     [3602879701896397 / 36028797018963968, 3602879701896397 / 36028797018963968,
      3602879701896397 / 36028797018963968]
   \<and> calculate_pearson PyFloat
         [Fin (3602879701896397 / 36028797018963968), Fin (3602879701896397 / 36028797018963968),
          Fin (3602879701896397 / 36028797018963968)]
         [Fin 1, Fin 2, Fin 4]
       = Inr (Fin (2407275258974741 / 20282409603651670423947251286016))
   \<and> calculate_pearson NpFloat64
         [Fin (3602879701896397 / 36028797018963968), Fin (3602879701896397 / 36028797018963968),
          Fin (3602879701896397 / 36028797018963968)]
         [Fin 1, Fin 2, Fin 4]
       = Inr (Fin (2407275258974741 / 20282409603651670423947251286016))
   \<and> Fin (2407275258974741 / 20282409603651670423947251286016) \<noteq> Fin 0"
  by (simp add: pearson_value_tenths all_identical_def)

section \<open>The range of the correlation\<close>

lemma pearsonr_range:
  assumes "pearsonr x y = Inr (Some c)"
  shows "- 1 \<le> c \<and> c \<le> 1"
proof -
  have s: "\<And>a s. fsign a = Some s \<Longrightarrow> \<bar>s\<bar> \<le> 1"
    by (auto simp: fsign_def sgn_real_def split: fl.splits if_splits)
  have p: "\<And>a b s t. fsign a = Some s \<Longrightarrow> fsign b = Some t \<Longrightarrow> - 1 \<le> s * t \<and> s * t \<le> 1"
  proof -
    fix a b s t assume "fsign a = Some s" and "fsign b = Some t"
    then have "\<bar>s\<bar> \<le> 1" and "\<bar>t\<bar> \<le> 1" using s by blast+
    then have "\<bar>s\<bar> * \<bar>t\<bar> \<le> 1 * 1" by (intro mult_mono) simp_all
    then have "\<bar>s * t\<bar> \<le> 1" by (simp add: abs_mult)
    then show "- 1 \<le> s * t \<and> s * t \<le> 1" by linarith
  qed
  have k: "\<And>r. clip_unit r = Some c \<Longrightarrow> - 1 \<le> c \<and> c \<le> 1"
    by (auto simp: clip_unit_def split: fl.splits)
  show ?thesis
    using assms
    by (auto simp: pearsonr_def Let_def split: if_splits option.splits dest: p k)
qed

text \<open>
  The function of \<^verbatim>\<open>analyze_cf.py\<close> stays between \<open>-1\<close> and \<open>1\<close> on all inputs, since
  the library clips its statistic.
\<close>

lemma correlation_in_range:
  "- 1 \<le> calculate_pearson_correlation v1 v2 \<and> calculate_pearson_correlation v1 v2 \<le> 1"
  using pearsonr_range[of v1 v2]
  by (auto simp: calculate_pearson_correlation_def split: sum.splits option.splits)

text \<open>
  Claim C2 fails on \<^verbatim>\<open>calculate_pearson\<close>, which does not clip. On the vectors 1, 4 and
  1, 4 the numerator and both denominators are 4.5; the square root of 4.5 rounds down,
  its square is the double below 4.5, and the quotient is the double above 1. With the
  second vector reversed the result is the double below \<open>-1\<close>.
\<close>

theorem correlation_leaves_unit_interval:
  "length [Fin 1, Fin 4] = length [Fin 1, Fin 4]
   \<and> 2 \<le> length [Fin 1, Fin 4]
   \<and> calculate_pearson PyFloat [Fin 1, Fin 4] [Fin 1, Fin 4]
       = Inr (Fin (4503599627370497 / 4503599627370496))
   \<and> calculate_pearson NpFloat64 [Fin 1, Fin 4] [Fin 1, Fin 4]
       = Inr (Fin (4503599627370497 / 4503599627370496))
   \<and> (1::real) < 4503599627370497 / 4503599627370496
   \<and> calculate_pearson PyFloat [Fin 1, Fin 4] [Fin 4, Fin 1]
       = Inr (Fin (- (4503599627370497 / 4503599627370496)))
   \<and> calculate_pearson NpFloat64 [Fin 1, Fin 4] [Fin 4, Fin 1]
       = Inr (Fin (- (4503599627370497 / 4503599627370496)))
   \<and> - (4503599627370497 / 4503599627370496) < (- 1::real)"
  by (simp add: pearson_value_1_4 pearson_value_1_4_reversed)

section \<open>Self-correlation\<close>

text \<open>
  Claim C3, as stated, fails: on the vector 4, 5, of length two and with two different
  values, the numerator and both denominators are 0.5, the product of the two rounded
  square roots is the double above 0.5, and \<^verbatim>\<open>calculate_pearson\<close> returns the double
  below 1, which is 0.9999999999999998.
\<close>

theorem self_correlation_below_one:
  "2 \<le> length [4, 5 :: real]
   \<and> \<not> all_identical [4, 5]
   \<and> calculate_pearson PyFloat [Fin 4, Fin 5] [Fin 4, Fin 5]
       = Inr (Fin (4503599627370495 / 4503599627370496))
   \<and> calculate_pearson NpFloat64 [Fin 4, Fin 5] [Fin 4, Fin 5]
       = Inr (Fin (4503599627370495 / 4503599627370496))
   \<and> Fin (4503599627370495 / 4503599627370496) \<noteq> Fin 1"
  by (simp add: pearson_value_4_5 all_identical_def)

section \<open>The two indices\<close>

lemma stored_setitem2:
  "stored (setitem2 d k1 k2 v) a b = (if a = k1 \<and> b = k2 then Some v else stored d a b)"
  by (auto simp: stored_def setitem2_def update_conv' split: option.splits)

lemma last_rating_snoc:
  "last_rating (rows @ [r]) u i =
     (if user_id r = u \<and> business_id r = i then Some (rating r) else last_rating rows u i)"
  by (simp add: last_rating_def)

lemma stored_user_ratings: "stored (user_ratings_of rows) u i = last_rating rows u i"
proof (induction rows rule: rev_induct)
  case Nil
  show ?case by (simp add: user_ratings_of_def stored_def last_rating_def)
next
  case (snoc r rows)
  have "user_ratings_of (rows @ [r])
      = setitem2 (user_ratings_of rows) (user_id r) (business_id r) (rating r)"
    by (simp add: user_ratings_of_def)
  then show ?case using snoc.IH by (simp add: stored_setitem2 last_rating_snoc)
qed

lemma stored_item_ratings: "stored (item_ratings_of rows) i u = last_rating rows u i"
proof (induction rows rule: rev_induct)
  case Nil
  show ?case by (simp add: item_ratings_of_def stored_def last_rating_def)
next
  case (snoc r rows)
  have "item_ratings_of (rows @ [r])
      = setitem2 (item_ratings_of rows) (business_id r) (user_id r) (rating r)"
    by (simp add: item_ratings_of_def)
  then show ?case using snoc.IH by (auto simp: stored_setitem2 last_rating_snoc)
qed

text \<open>
  Claim C5. Whatever the rows, duplicates of a (user, business) pair included, the rating
  held under user then business in the by-user index is the rating held under business
  then user in the by-item index; both are absent together. Each holds the rating of the
  last row of the pair.
\<close>

theorem indices_agree:
  "stored (user_ratings_of ratings_df) u i = stored (item_ratings_of ratings_df) i u
   \<and> stored (user_ratings_of ratings_df) u i = last_rating ratings_df u i"
  by (simp add: stored_user_ratings stored_item_ratings)

lemma keys_setitem2: "fst ` set (setitem2 d k1 k2 v) = insert k1 (fst ` set d)"
  by (simp add: setitem2_def dom_update)

lemma keys_user_ratings: "fst ` set (user_ratings_of rows) = user_id ` set rows"
proof (induction rows rule: rev_induct)
  case Nil
  show ?case by (simp add: user_ratings_of_def)
next
  case (snoc r rows)
  have "user_ratings_of (rows @ [r])
      = setitem2 (user_ratings_of rows) (user_id r) (business_id r) (rating r)"
    by (simp add: user_ratings_of_def)
  then show ?case using snoc.IH by (simp add: keys_setitem2)
qed

lemma keys_item_ratings: "fst ` set (item_ratings_of rows) = business_id ` set rows"
proof (induction rows rule: rev_induct)
  case Nil
  show ?case by (simp add: item_ratings_of_def)
next
  case (snoc r rows)
  have "item_ratings_of (rows @ [r])
      = setitem2 (item_ratings_of rows) (business_id r) (user_id r) (rating r)"
    by (simp add: item_ratings_of_def)
  then show ?case using snoc.IH by (simp add: keys_setitem2)
qed

section \<open>Reads that cannot fail\<close>

lemma getitem2_stored:
  "getitem2 d k1 k2 = (case stored d k1 k2 of None \<Rightarrow> Inl KeyError | Some v \<Rightarrow> Inr v)"
  by (simp add: getitem2_def getitem_def stored_def split: option.splits)

lemma getitem_present: "k \<in> fst ` set d \<Longrightarrow> getitem d k = Inr (the (map_of d k))"
  by (auto simp: getitem_def map_of_eq_None_iff split: option.splits)

lemma comprehension_map:
  "\<forall>x \<in> set xs. f x = Inr (g x) \<Longrightarrow> comprehension f xs = Inr (map g xs)"
  by (induction xs) auto

lemma last_rating_present:
  "last_rating rows u i \<noteq> None \<longleftrightarrow> (\<exists>r \<in> set rows. user_id r = u \<and> business_id r = i)"
  by (auto simp: last_rating_def find_None_iff)

lemma getitem2_user_ratings:
  assumes "r \<in> set rows"
  shows "getitem2 (user_ratings_of rows) (user_id r) (business_id r)
       = Inr (the (last_rating rows (user_id r) (business_id r)))"
proof -
  have "\<exists>q \<in> set rows. user_id q = user_id r \<and> business_id q = business_id r"
    using assms by blast
  then have "last_rating rows (user_id r) (business_id r) \<noteq> None"
    by (simp only: last_rating_present)
  then show ?thesis by (auto simp: getitem2_stored stored_user_ratings)
qed

lemma set_intersection: "set (intersection s t) = set s \<inter> set t"
  by (auto simp: intersection_def)

lemma set_py_set: "set (py_set xs) = set xs"
  by (simp add: py_set_def)

section \<open>The loop of the user search\<close>

lemma comprehension_target:
  assumes "\<forall>i \<in> set items. stored ur t i \<noteq> None"
  shows "comprehension (getitem2 ur t) (intersection items s)
       = Inr (map (\<lambda>i. the (stored ur t i)) (intersection items s))"
proof (rule comprehension_map, rule ballI)
  fix i assume "i \<in> set (intersection items s)"
  then have "stored ur t i \<noteq> None" using assms by (simp add: set_intersection)
  then show "getitem2 ur t i = Inr (the (stored ur t i))"
    by (auto simp: getitem2_stored)
qed

lemma comprehension_other:
  "comprehension (getitem d) (intersection items (py_set (map fst d)))
     = Inr (map (\<lambda>i. the (map_of d i)) (intersection items (py_set (map fst d))))"
proof (rule comprehension_map, rule ballI)
  fix i assume "i \<in> set (intersection items (py_set (map fst d)))"
  then have "i \<in> fst ` set d" by (simp add: set_intersection set_py_set)
  then show "getitem d i = Inr (the (map_of d i))" by (rule getitem_present)
qed

lemma similar_users_loop_char:
  assumes "\<forall>i \<in> set items. stored ur t i \<noteq> None"
  shows "similar_users_loop t items ur m rest acc
       = Inr (acc @ map (users_score t items ur) (filter (users_candidate t items m) rest))"
proof (induction rest arbitrary: acc)
  case Nil
  show ?case by simp
next
  case (Cons p rest)
  obtain u d where p: "p = (u, d)" by (cases p)
  show ?case
  proof (cases "users_candidate t items m (u, d)")
    case True
    then show ?thesis
      unfolding p
      by (simp add: users_candidate_def users_score_def Let_def Cons.IH
          comprehension_target[OF assms] comprehension_other)
  next
    case False
    then show ?thesis
      unfolding p
      by (auto simp: users_candidate_def Let_def Cons.IH)
  qed
qed

lemma target_items_stored:
  "\<forall>i \<in> set (py_set (map business_id (filter (\<lambda>row. user_id row = t) rows))).
     stored (user_ratings_of rows) t i \<noteq> None"
proof
  fix i assume "i \<in> set (py_set (map business_id (filter (\<lambda>row. user_id row = t) rows)))"
  then have "\<exists>r \<in> set rows. user_id r = t \<and> business_id r = i"
    by (auto simp: set_py_set)
  then have "last_rating rows t i \<noteq> None" by (simp only: last_rating_present)
  then show "stored (user_ratings_of rows) t i \<noteq> None" by (simp add: stored_user_ratings)
qed

lemma similarity_scores_of_char:
  "similarity_scores_of t rows m
     = Inr (map (users_score t (py_set (map business_id (filter (\<lambda>row. user_id row = t) rows)))
                   (user_ratings_of rows))
              (filter (users_candidate t
                         (py_set (map business_id (filter (\<lambda>row. user_id row = t) rows))) m)
                 (user_ratings_of rows)))"
  by (simp add: similarity_scores_of_def Let_def similar_users_loop_char[OF target_items_stored])


lemma users_score_id: "fst (users_score t items ur p) = fst p"
  by (cases p) (simp add: users_score_def Let_def)

lemma users_candidate_iff:
  "users_candidate t items m p
     \<longleftrightarrow> fst p \<noteq> t \<and> m \<le> length (intersection items (py_set (map fst (snd p))))"
  by (cases p) (simp add: users_candidate_def)



lemma find_similar_users_char:
  "find_similar_users t rows m n
     = Inr (take n (sort_key (\<lambda>x. - fst (snd x))
         (map (users_score t (py_set (map business_id (filter (\<lambda>row. user_id row = t) rows)))
                   (user_ratings_of rows))
              (filter (users_candidate t
                         (py_set (map business_id (filter (\<lambda>row. user_id row = t) rows))) m)
                 (user_ratings_of rows)))))"
  by (simp add: find_similar_users_def similarity_scores_of_char)

lemma length_filter_mono:
  assumes "\<And>x. Q x \<Longrightarrow> P x"
  shows "length (filter Q xs) \<le> length (filter P xs)"
  using assms by (induction xs) auto


text \<open>
  Claim C8. \<^verbatim>\<open>find_similar_users\<close> returns normally, and no returned tuple carries the
  target user's id.
\<close>

theorem target_not_in_similar_users:
  "\<exists>res. find_similar_users t rows m n = Inr res \<and> t \<notin> fst ` set res"
proof -
  define items where "items = py_set (map business_id (filter (\<lambda>row. user_id row = t) rows))"
  define ur where "ur = user_ratings_of rows"
  define s where "s = map (users_score t items ur) (filter (users_candidate t items m) ur)"
  have "find_similar_users t rows m n = Inr (take n (sort_key (\<lambda>x. - fst (snd x)) s))"
    by (simp add: find_similar_users_char s_def items_def ur_def)
  moreover have "t \<notin> fst ` set s"
    by (auto simp: s_def users_score_id users_candidate_iff)
  moreover have "set (take n (sort_key (\<lambda>x. - fst (snd x)) s)) \<subseteq> set s"
    using set_take_subset[of n "sort_key (\<lambda>x. - fst (snd x)) s"] by simp
  ultimately show ?thesis by blast
qed

section \<open>The loops of the item search\<close>

lemma similar_items_inner_char:
  assumes "\<forall>u \<in> set tusers. stored ir ti u \<noteq> None"
  shows "similar_items_inner ti tusers ir m rest acc
       = Inr (acc @ map (Pair ti)
                (filter (\<lambda>x. 0 < fst (snd x))
                   (map (users_score ti tusers ir) (filter (users_candidate ti tusers m) rest))))"
proof (induction rest arbitrary: acc)
  case Nil
  show ?case by simp
next
  case (Cons p rest)
  obtain oi d where p: "p = (oi, d)" by (cases p)
  show ?case
  proof (cases "users_candidate ti tusers m (oi, d)")
    case True
    then show ?thesis
      unfolding p
      by (simp add: users_candidate_def users_score_def Let_def Cons.IH
          comprehension_target[OF assms] comprehension_other)
  next
    case False
    then show ?thesis
      unfolding p
      by (auto simp: users_candidate_def Let_def Cons.IH)
  qed
qed

lemma target_item_users_stored:
  "\<forall>u \<in> set (py_set (map fst (case map_of ir ti of None \<Rightarrow> [] | Some d \<Rightarrow> d))).
     stored ir ti u \<noteq> None"
proof (cases "map_of ir ti")
  case None
  then show ?thesis by (simp add: py_set_def)
next
  case (Some d)
  have "\<forall>u \<in> fst ` set d. map_of d u \<noteq> None"
    by (simp add: map_of_eq_None_iff)
  then show ?thesis using Some by (simp add: set_py_set stored_def)
qed

lemma similar_items_outer_char:
  "similar_items_outer ir m tis acc = Inr (acc @ concat (map (item_pairs ir m) tis))"
proof (induction tis arbitrary: acc)
  case Nil
  show ?case by simp
next
  case (Cons ti tis)
  show ?case
    by (simp add: Let_def similar_items_inner_char[OF target_item_users_stored] Cons.IH
        item_pairs_def)
qed

lemma find_similar_items_char:
  "find_similar_items t rows m n
     = Inr (take n (sort_key (\<lambda>x. - fst (snd (snd x)))
              (concat (map (item_pairs (item_ratings_of rows) m)
                         (map business_id (filter (\<lambda>row. user_id row = t) rows))))))"
  by (simp add: find_similar_items_def Let_def similar_items_outer_char)

lemma item_pairs_positive: "\<forall>x \<in> set (item_pairs ir m ti). 0 < fst (snd (snd x))"
  by (auto simp: item_pairs_def Let_def)

text \<open>
  Claim C7. \<^verbatim>\<open>find_similar_items\<close> returns normally, and every tuple it returns has a
  similarity strictly above 0.
\<close>

theorem similar_items_positive:
  "\<exists>res. find_similar_items t rows m n = Inr res \<and> list_all (\<lambda>x. 0 < fst (snd (snd x))) res"
proof -
  define s where "s = concat (map (item_pairs (item_ratings_of rows) m)
                         (map business_id (filter (\<lambda>row. user_id row = t) rows)))"
  have "find_similar_items t rows m n = Inr (take n (sort_key (\<lambda>x. - fst (snd (snd x))) s))"
    by (simp add: find_similar_items_char s_def)
  moreover have "\<forall>x \<in> set s. 0 < fst (snd (snd x))"
    using item_pairs_positive by (auto simp: s_def)
  moreover have "set (take n (sort_key (\<lambda>x. - fst (snd (snd x))) s)) \<subseteq> set s"
    using set_take_subset[of n "sort_key (\<lambda>x. - fst (snd (snd x))) s"] by simp
  ultimately show ?thesis by (auto simp: list_all_iff)
qed

section \<open>The example table\<close>

lemma example_user_ratings:
  "user_ratings_of example_ratings
     = [(''A'', [(''x'', 4), (''y'', 5)]), (''B'', [(''x'', 2), (''y'', 3)]),
        (''C'', [(''z'', 3)]), (''D'', [(''x'', 2)])]"
  by (simp add: user_ratings_of_def example_ratings_def setitem2_def)

lemma example_item_ratings:
  "item_ratings_of example_ratings
     = [(''x'', [(''A'', 4), (''B'', 2), (''D'', 2)]), (''y'', [(''A'', 5), (''B'', 3)]),
        (''z'', [(''C'', 3)])]"
  by (simp add: item_ratings_of_def example_ratings_def setitem2_def)

lemma example_similarity_scores:
  "similarity_scores_of ''A'' example_ratings 1 = Inr [(''B'', 1, 2), (''D'', 0, 1)]"
  by (simp add: similarity_scores_of_def Let_def example_user_ratings)
     (simp add: example_ratings_def py_set_def intersection_def getitem2_def getitem_def
        example_correlation_1 example_correlation_4)

section \<open>Building from an empty table\<close>

text \<open>
  Claim C4, as stated, fails: the code has no error for an empty table. From no rows the
  two indices are built empty and both searches return the empty list; the loops of
  \<^verbatim>\<open>find_ideal_cf_users\<close> leave \<^verbatim>\<open>results\<close> empty as well.
\<close>

theorem empty_table_builds:
  "user_ratings_of [] = []
   \<and> item_ratings_of [] = []
   \<and> find_similar_users ''A'' [] 1 10 = Inr []
   \<and> find_similar_items ''A'' [] 1 10 = Inr []
   \<and> candidate_rows [] 5 2 (1 / 10) = Inr []"
  by (simp add: user_ratings_of_def item_ratings_of_def find_similar_users_def
      similarity_scores_of_def find_similar_items_def candidate_rows_def value_counts_def
      py_set_def Let_def)

text \<open>
  Claim C4, amended. Building the indices succeeds on every table, the empty one included:
  the by-user index has exactly the users of the rows as keys, the by-item index exactly
  the businesses, each is empty exactly when the table is, and both searches return
  normally.
\<close>

theorem indices_built_for_every_table:
  "fst ` set (user_ratings_of ratings_df) = user_id ` set ratings_df
   \<and> fst ` set (item_ratings_of ratings_df) = business_id ` set ratings_df
   \<and> (user_ratings_of ratings_df = [] \<longleftrightarrow> ratings_df = [])
   \<and> (item_ratings_of ratings_df = [] \<longleftrightarrow> ratings_df = [])
   \<and> (\<exists>res. find_similar_users t ratings_df m n = Inr res)
   \<and> (\<exists>res. find_similar_items t ratings_df m n = Inr res)"
proof -
  have u: "fst ` set (user_ratings_of ratings_df) = user_id ` set ratings_df"
    by (rule keys_user_ratings)
  have i: "fst ` set (item_ratings_of ratings_df) = business_id ` set ratings_df"
    by (rule keys_item_ratings)
  have "(set (user_ratings_of ratings_df) = {}) = (set ratings_df = {})"
    using u by (metis image_is_empty)
  then have ue: "user_ratings_of ratings_df = [] \<longleftrightarrow> ratings_df = []" by simp
  have "(set (item_ratings_of ratings_df) = {}) = (set ratings_df = {})"
    using i by (metis image_is_empty)
  then have ie: "item_ratings_of ratings_df = [] \<longleftrightarrow> ratings_df = []" by simp
  show ?thesis
    using u i ue ie by (simp add: find_similar_users_char find_similar_items_char)
qed

section \<open>The statements on the example table\<close>

theorem indices_agree_witness:
  "stored (user_ratings_of [\<lparr>user_id = ''A'', business_id = ''x'', rating = 4\<rparr>,
                            \<lparr>user_id = ''A'', business_id = ''x'', rating = 1\<rparr>]) ''A'' ''x'' = Some 1
   \<and> stored (item_ratings_of [\<lparr>user_id = ''A'', business_id = ''x'', rating = 4\<rparr>,
                              \<lparr>user_id = ''A'', business_id = ''x'', rating = 1\<rparr>]) ''x'' ''A'' = Some 1"
proof -
  have l: "last_rating [\<lparr>user_id = ''A'', business_id = ''x'', rating = 4\<rparr>,
                        \<lparr>user_id = ''A'', business_id = ''x'', rating = 1\<rparr>] ''A'' ''x'' = Some 1"
    by (simp add: last_rating_def)
  show ?thesis
    using indices_agree [of "[\<lparr>user_id = ''A'', business_id = ''x'', rating = 4\<rparr>,
                              \<lparr>user_id = ''A'', business_id = ''x'', rating = 1\<rparr>]" "''A''" "''x''"]
    unfolding l by metis
qed


lemma example_find_similar_users:
  "find_similar_users ''A'' example_ratings 1 10 = Inr [(''B'', 1, 2), (''D'', 0, 1)]"
  unfolding find_similar_users_def example_similarity_scores by simp

lemma example_find_similar_items:
  "find_similar_items ''A'' example_ratings 1 10 = Inr [(''x'', ''y'', 1, 2), (''y'', ''x'', 1, 2)]"
  by (simp add: find_similar_items_def Let_def example_item_ratings)
     (simp add: example_ratings_def py_set_def intersection_def getitem2_def getitem_def
        example_correlation_2 example_correlation_3)


theorem similar_items_positive_witness:
  "find_similar_items ''A'' example_ratings 1 10 = Inr [(''x'', ''y'', 1, 2), (''y'', ''x'', 1, 2)]
   \<and> (\<exists>res. find_similar_items ''A'' example_ratings 1 10 = Inr res
            \<and> res \<noteq> [] \<and> list_all (\<lambda>x. 0 < fst (snd (snd x))) res)"
  using similar_items_positive [of "''A''" example_ratings 1 10] example_find_similar_items
  by auto

theorem target_not_in_similar_users_witness:
  "find_similar_users ''A'' example_ratings 1 10 = Inr [(''B'', 1, 2), (''D'', 0, 1)]
   \<and> (\<exists>res. find_similar_users ''A'' example_ratings 1 10 = Inr res
            \<and> res \<noteq> [] \<and> ''A'' \<notin> fst ` set res)"
  using target_not_in_similar_users [of "''A''" example_ratings 1 10] example_find_similar_users
  by auto

section \<open>The candidate rows\<close>

lemma calculate_pearson_np_total:
  assumes "length a = length b"
  shows "\<exists>r. calculate_pearson NpFloat64 a b = Inr r"
proof (cases "length a < 2")
  case True
  then show ?thesis by (simp add: calculate_pearson_def)
next
  case False
  then have b: "b \<noteq> []" using assms by auto
  have c: "\<And>f xs. comprehension (\<lambda>x. pow2 NpFloat64 (f x)) xs
               = Inr (map (\<lambda>x. fmul (f x) (f x)) xs)"
    by (rule comprehension_map) (simp add: pow2_def)
  show ?thesis using False b by (simp add: calculate_pearson_def Let_def c)
qed

lemma filter_label_distinct:
  assumes "distinct (map fst s)" and "k \<in> fst ` set s"
  shows "\<exists>p. filter (\<lambda>p. fst p = k) s = [p]"
  using assms
proof (induction s)
  case Nil
  then show ?case by simp
next
  case (Cons q s)
  show ?case
  proof (cases "fst q = k")
    case True
    then have "k \<notin> fst ` set s" using Cons.prems(1) by auto
    then have "filter (\<lambda>p. fst p = k) s = []" by (auto simp: filter_empty_conv)
    then show ?thesis using True by simp
  next
    case False
    then have "k \<in> fst ` set s" using Cons.prems(2) by auto
    then show ?thesis using Cons.IH Cons.prems(1) False by simp
  qed
qed

lemma series_getitem_distinct:
  assumes "distinct (map fst s)" and "k \<in> fst ` set s"
  shows "\<exists>x. series_getitem s k = Inr (Scalar x)"
proof -
  obtain p where "filter (\<lambda>p. fst p = k) s = [p]"
    using filter_label_distinct[OF assms] by blast
  then show ?thesis by (simp add: series_getitem_def)
qed

lemma comprehension_series_distinct:
  assumes "distinct (map fst s)" and "set ks \<subseteq> fst ` set s"
  shows "\<exists>xs. comprehension (series_getitem s) ks = Inr (map Scalar xs) \<and> length xs = length ks"
  using assms(2)
proof (induction ks)
  case Nil
  show ?case by simp
next
  case (Cons k ks)
  obtain x where x: "series_getitem s k = Inr (Scalar x)"
    using series_getitem_distinct[OF assms(1), of k] Cons.prems by auto
  obtain xs where xs: "comprehension (series_getitem s) ks = Inr (map Scalar xs)"
      "length xs = length ks"
    using Cons.IH Cons.prems by auto
  have "comprehension (series_getitem s) (k # ks) = Inr (map Scalar (x # xs))"
    by (simp add: x xs(1))
  moreover have "length (x # xs) = length (k # ks)" using xs(2) by simp
  ultimately show ?case by blast
qed

lemma scalars_Scalar: "scalars (map Scalar xs) = Some (map Fin xs)"
  by (induction xs) simp_all

lemma calculate_pearson_cells_total:
  assumes "length xs = length ys"
  shows "\<exists>r. calculate_pearson_cells (map Scalar xs) (map Scalar ys) = Inr r"
  using calculate_pearson_np_total[of "map Fin xs" "map Fin ys"] assms
  by (auto simp: calculate_pearson_cells_def scalars_Scalar)

lemma series_of_distinct:
  assumes "distinct (map (\<lambda>row. (user_id row, business_id row)) rows)"
  shows "distinct (map fst (series_of rows u))"
proof -
  define F where "F = filter (\<lambda>row. user_id row = u) rows"
  have "distinct (map (\<lambda>row. (user_id row, business_id row)) F)"
    unfolding F_def using assms by (rule distinct_map_filter)
  then have d: "distinct F" and i: "inj_on (\<lambda>row. (user_id row, business_id row)) (set F)"
    by (simp_all add: distinct_map)
  have "inj_on business_id (set F)"
  proof (rule inj_onI)
    fix r1 r2 assume m: "r1 \<in> set F" "r2 \<in> set F" and e: "business_id r1 = business_id r2"
    have "user_id r1 = u" and "user_id r2 = u" using m by (simp_all add: F_def)
    then have "(user_id r1, business_id r1) = (user_id r2, business_id r2)" using e by simp
    then show "r1 = r2" using i m by (auto dest: inj_onD)
  qed
  then have "distinct (map business_id F)" using d by (simp add: distinct_map)
  then show ?thesis by (simp add: series_of_def comp_def F_def)
qed

lemma others_loop_total:
  assumes "distinct (map (\<lambda>row. (user_id row, business_id row)) rows)"
  shows "\<exists>res. others_loop u (series_of rows u) rows mc ms others acc = Inr res"
proof (induction others arbitrary: acc)
  case Nil
  show ?case by simp
next
  case (Cons other rest)
  obtain c p where acc: "acc = (c, p)" by (cases acc)
  define s where "s = series_of rows u"
  define o_r where "o_r = series_of rows other"
  define common where "common = intersection (py_set (map fst s)) (py_set (map fst o_r))"
  have ds: "distinct (map fst s)" unfolding s_def using assms by (rule series_of_distinct)
  have dor: "distinct (map fst o_r)" unfolding o_r_def using assms by (rule series_of_distinct)
  obtain xs where xs: "comprehension (series_getitem s) common = Inr (map Scalar xs)"
      "length xs = length common"
    using comprehension_series_distinct[OF ds, of common]
    by (auto simp: common_def set_intersection set_py_set)
  obtain ys where ys: "comprehension (series_getitem o_r) common = Inr (map Scalar ys)"
      "length ys = length common"
    using comprehension_series_distinct[OF dor, of common]
    by (auto simp: common_def set_intersection set_py_set)
  obtain r where r: "calculate_pearson_cells (map Scalar xs) (map Scalar ys) = Inr r"
    using calculate_pearson_cells_total[of xs ys] xs(2) ys(2) by auto
  show ?case
    unfolding acc
    using Cons.IH xs(1) ys(1) r
    by (simp add: Let_def s_def[symmetric] o_r_def[symmetric] common_def[symmetric])
qed

lemma length_series_of: "length (series_of rows u) = count_list (map user_id rows) u"
  by (induction rows) (auto simp: series_of_def)

lemma candidates_loop_char:
  assumes "distinct (map (\<lambda>row. (user_id row, business_id row)) rows)"
  shows "\<exists>rs. candidates_loop rows mc ms q us acc = Inr (acc @ rs)
      \<and> map row_user_id rs = us
      \<and> (\<forall>r \<in> set rs. num_ratings r = count_list (map user_id rows) (row_user_id r))"
proof (induction us arbitrary: acc)
  case Nil
  show ?case by simp
next
  case (Cons u us)
  obtain c p where o: "others_loop u (series_of rows u) rows mc ms q (0, []) = Inr (c, p)"
    using others_loop_total[OF assms, of u mc ms q "(0, [])"] by (cases) auto
  define row where "row = \<lparr>row_user_id = u, num_ratings = length (series_of rows u),
     similar_users = c, potential_recommendations = length p\<rparr>"
  obtain rs where rs: "candidates_loop rows mc ms q us (acc @ [row]) = Inr ((acc @ [row]) @ rs)"
      "map row_user_id rs = us"
      "\<forall>r \<in> set rs. num_ratings r = count_list (map user_id rows) (row_user_id r)"
    using Cons.IH[of "acc @ [row]"] by blast
  have "candidates_loop rows mc ms q (u # us) acc = Inr (acc @ (row # rs))"
    using o rs(1) by (simp add: Let_def row_def)
  moreover have "map row_user_id (row # rs) = u # us" using rs(2) by (simp add: row_def)
  moreover have "\<forall>r \<in> set (row # rs). num_ratings r = count_list (map user_id rows) (row_user_id r)"
    using rs(3) by (simp add: row_def length_series_of)
  ultimately show ?case by (intro exI[of _ "row # rs"] conjI)
qed

lemma set_value_counts:
  "set (value_counts xs) = (\<lambda>u. (u, count_list xs u)) ` set xs"
  by (simp add: value_counts_def)

lemma distinct_value_counts: "distinct (map fst (value_counts xs))"
proof -
  have "map fst (map (\<lambda>u. (u, count_list xs u)) (rev (remdups (rev xs)))) = rev (remdups (rev xs))"
    by (simp add: comp_def)
  then have d: "distinct (map fst (map (\<lambda>u. (u, count_list xs u)) (rev (remdups (rev xs)))))"
    by simp
  then have "inj_on fst (set (map (\<lambda>u. (u, count_list xs u)) (rev (remdups (rev xs)))))"
    and "distinct (map (\<lambda>u. (u, count_list xs u)) (rev (remdups (rev xs))))"
    by (simp_all only: distinct_map)
  then show ?thesis by (simp add: value_counts_def distinct_map)
qed

lemma qualified_users_distinct:
  "distinct (map fst (filter (\<lambda>p. m \<le> snd p) (value_counts xs)))"
  using distinct_value_counts[of xs] by (rule distinct_map_filter)

lemma qualified_users_set:
  "set (map fst (filter (\<lambda>p. m \<le> snd p) (value_counts xs)))
     = {u \<in> set xs. m \<le> count_list xs u}"
  by (auto simp: set_value_counts image_iff)

text \<open>
  On a table with at most one row per user and business every subscript gives a number,
  the loops of \<^verbatim>\<open>find_ideal_cf_users\<close> end without an error and leave in \<^verbatim>\<open>results\<close>
  exactly one row for each user with at least \<open>min_ratings\<close> rows and none for any other
  user; the \<^verbatim>\<open>num_ratings\<close> of a row is the number of rows of its user. When there is
  such a user the function returns these rows, reordered.
\<close>

lemma candidate_rows_on_distinct_table:
  assumes "distinct (map (\<lambda>row. (user_id row, business_id row)) ratings_df)"
  shows "\<exists>results.
           candidate_rows ratings_df min_ratings min_common min_similarity = Inr results
         \<and> distinct (map row_user_id results)
         \<and> set (map row_user_id results)
             = {u \<in> user_id ` set ratings_df. min_ratings \<le> count_list (map user_id ratings_df) u}
         \<and> list_all (\<lambda>r. num_ratings r = count_list (map user_id ratings_df) (row_user_id r)
                         \<and> min_ratings \<le> num_ratings r) results
         \<and> (results \<noteq> [] \<longrightarrow>
               (\<exists>rows. find_ideal_cf_users ratings_df min_ratings min_common min_similarity = Inr rows
                      \<and> set rows = set results \<and> length rows = length results))"
proof -
  define q where "q = map fst (filter (\<lambda>p. min_ratings \<le> snd p) (value_counts (map user_id ratings_df)))"
  obtain rs where rs: "candidates_loop ratings_df min_common min_similarity q q [] = Inr ([] @ rs)"
      "map row_user_id rs = q"
      "\<forall>r \<in> set rs. num_ratings r = count_list (map user_id ratings_df) (row_user_id r)"
    using candidates_loop_char[OF assms, of min_common min_similarity q q "[]"] by blast
  have c: "candidate_rows ratings_df min_ratings min_common min_similarity = Inr rs"
    using rs(1) by (simp add: candidate_rows_def Let_def q_def)
  have d: "distinct (map row_user_id rs)"
    unfolding rs(2) q_def by (rule qualified_users_distinct)
  have s: "set (map row_user_id rs)
         = {u \<in> user_id ` set ratings_df. min_ratings \<le> count_list (map user_id ratings_df) u}"
    unfolding rs(2) q_def by (rule trans[OF qualified_users_set]) simp
  have "\<forall>r \<in> set rs. min_ratings \<le> count_list (map user_id ratings_df) (row_user_id r)"
  proof
    fix r assume "r \<in> set rs"
    then have "row_user_id r \<in> set (map row_user_id rs)" by simp
    then show "min_ratings \<le> count_list (map user_id ratings_df) (row_user_id r)"
      unfolding s by simp
  qed
  then have n: "list_all (\<lambda>r. num_ratings r = count_list (map user_id ratings_df) (row_user_id r)
                         \<and> min_ratings \<le> num_ratings r) rs"
    using rs(3) by (simp add: list_all_iff)
  have f: "rs \<noteq> [] \<longrightarrow>
               (\<exists>rows. find_ideal_cf_users ratings_df min_ratings min_common min_similarity = Inr rows
                      \<and> set rows = set rs \<and> length rows = length rs)"
    by (simp add: find_ideal_cf_users_def c sort_values_def)
  show ?thesis using c d s n f by blast
qed

lemma example_value_counts:
  "value_counts (map user_id example_ratings) = [(''A'', 2), (''B'', 2), (''C'', 1), (''D'', 1)]"
  by (simp add: value_counts_def example_ratings_def)

lemma example_candidate_rows:
  "candidate_rows example_ratings 2 1 (1 / 10)
     = Inr [\<lparr>row_user_id = ''A'', num_ratings = 2, similar_users = 1, potential_recommendations = 0\<rparr>,
            \<lparr>row_user_id = ''B'', num_ratings = 2, similar_users = 1, potential_recommendations = 0\<rparr>]"
  by (simp add: candidate_rows_def Let_def example_value_counts)
     (simp add: example_ratings_def series_of_def py_set_def intersection_def difference_def
        set_update_def series_getitem_def calculate_pearson_cells_def fgt_def
        example_pearson example_pearson_reversed)

text \<open>
  When no user has \<open>min_ratings\<close> rows the list \<^verbatim>\<open>results\<close> is empty and the final sort
  raises \<^verbatim>\<open>KeyError\<close>; the example table has no user with five rows.
\<close>

lemma no_qualified_user_raises:
  "candidate_rows ratings_df min_ratings min_common min_similarity = Inr []
     \<Longrightarrow> find_ideal_cf_users ratings_df min_ratings min_common min_similarity = Inl KeyError"
  by (simp add: find_ideal_cf_users_def sort_values_def)

lemma example_no_qualified_user:
  "find_ideal_cf_users example_ratings 5 2 (1 / 10) = Inl KeyError"
  by (rule no_qualified_user_raises)
     (simp add: candidate_rows_def Let_def example_value_counts)

text \<open>
  Claim C9 fails on a table that repeats a pair of user and business. In
  \<^const>\<open>repeated_ratings\<close> the users A and B have three and two rows, so both qualify under
  \<open>min_ratings = 2\<close>, and they share the businesses x and y. The subscript
  \<^verbatim>\<open>user_ratings['x']\<close> of A is a sub-series, \<^verbatim>\<open>denominatorA\<close> is a series, and the test at
  line 102 raises \<^verbatim>\<open>ValueError\<close>: no row is produced for A or for B.
\<close>

theorem repeated_pair_raises:
  "count_list (map user_id repeated_ratings) ''A'' = 3
   \<and> count_list (map user_id repeated_ratings) ''B'' = 2
   \<and> candidate_rows repeated_ratings 2 2 (1 / 10) = Inl ValueError
   \<and> find_ideal_cf_users repeated_ratings 2 2 (1 / 10) = Inl ValueError"
proof -
  have v: "value_counts (map user_id repeated_ratings) = [(''A'', 3), (''B'', 2)]"
    by (simp add: value_counts_def repeated_ratings_def)
  have c: "candidate_rows repeated_ratings 2 2 (1 / 10) = Inl ValueError"
    by (simp add: candidate_rows_def Let_def v)
       (simp add: repeated_ratings_def series_of_def py_set_def intersection_def
          series_getitem_def calculate_pearson_cells_def)
  show ?thesis
    using c by (simp add: find_ideal_cf_users_def repeated_ratings_def)
qed

end
